theory Spec2Isabelle
  imports Complex_Main "HOL-Library.Word" "HOL-Library.AList" "HOL-Library.Sublist"
begin

unbundle bit_operations_syntax

section \<open>JavaScript strings\<close>

text \<open>
  Translated content is a JavaScript string: a sequence of UTF-16 code units. Identifiers
  of the program (language codes, translator types, instance ids, messages, API keys) are
  ASCII and are kept as \<open>string\<close>; \<open>js\<close> embeds them into code units where the source
  concatenates both kinds.
\<close>

type_synonym jsstring = "16 word list"

definition js :: "string \<Rightarrow> jsstring" where
  "js s = map (\<lambda>c. of_nat (of_char c)) s"

text \<open>\<open>a || b\<close> on strings: the empty string (like \<open>undefined\<close>) is falsy.\<close>

definition js_or :: "'a list \<Rightarrow> 'a list \<Rightarrow> 'a list" where
  "js_or a b = (if a = [] then b else a)"

text \<open>\<open>String.prototype.includes\<close>.\<close>

fun js_includes :: "'a list \<Rightarrow> 'a list \<Rightarrow> bool" where
  "js_includes [] ys = (ys = [])"
| "js_includes (x # xs) ys = (prefix ys (x # xs) \<or> js_includes xs ys)"

text \<open>The characters removed by \<open>trim()\<close> and matched by \<open>\s\<close>: WhiteSpace and LineTerminator.\<close>

definition isWhiteSpace :: "16 word \<Rightarrow> bool" where
  "isWhiteSpace c =
     (c \<in> set [0x09, 0x0A, 0x0B, 0x0C, 0x0D, 0x20, 0xA0, 0x1680, 0x2028, 0x2029,
                0x202F, 0x205F, 0x3000, 0xFEFF]
      \<or> (0x2000 \<le> c \<and> c \<le> 0x200A))"

definition isWhiteSpaceChar :: "char \<Rightarrow> bool" where
  "isWhiteSpaceChar c = isWhiteSpace (of_nat (of_char c))"

definition trim_with :: "('a \<Rightarrow> bool) \<Rightarrow> 'a list \<Rightarrow> 'a list" where
  "trim_with ws s = rev (dropWhile ws (rev (dropWhile ws s)))"

definition trim :: "jsstring \<Rightarrow> jsstring" where
  "trim s = trim_with isWhiteSpace s"

definition trim_ascii :: "string \<Rightarrow> string" where
  "trim_ascii s = trim_with isWhiteSpaceChar s"

text \<open>\<open>\w\<close> is \<open>[A-Za-z0-9_]\<close>, also under the \<open>i\<close> flag (no \<open>u\<close> flag is used).\<close>

definition isAlnum :: "16 word \<Rightarrow> bool" where
  "isAlnum c = ((0x41 \<le> c \<and> c \<le> 0x5A) \<or> (0x61 \<le> c \<and> c \<le> 0x7A) \<or> (0x30 \<le> c \<and> c \<le> 0x39))"

definition isWordChar :: "16 word \<Rightarrow> bool" where
  "isWordChar c = (isAlnum c \<or> c = 0x5F)"

text \<open>
  Matching under the \<open>i\<close> flag: an ASCII letter of the pattern matches both of its cases,
  every other pattern character matches only itself.
\<close>

definition toLowerAscii :: "16 word \<Rightarrow> 16 word" where
  "toLowerAscii c = (if 0x41 \<le> c \<and> c \<le> 0x5A then c + 0x20 else c)"

definition ci_prefix :: "string \<Rightarrow> jsstring \<Rightarrow> bool" where
  "ci_prefix p s = prefix (map toLowerAscii (js p)) (map toLowerAscii s)"

section \<open>CryptoUtils\<close>

text \<open>\<open>Number.prototype.toString(16)\<close> on a non-negative integer.\<close>

function toString16 :: "int \<Rightarrow> string" where
  "toString16 n =
     (if n < 16 then [''0123456789abcdef'' ! nat n]
      else toString16 (n div 16) @ [''0123456789abcdef'' ! nat (n mod 16)])"
  by pat_completeness auto
termination
  by (relation "measure nat") auto

declare toString16.simps [simp del]

text \<open>
  One round of the loop of \<open>hash\<close>: \<open>hash = ((hash << 5) - hash) + char; hash = hash & hash\<close>.
  The bitwise operators work on 32-bit integers, so the accumulator is a \<open>32 word\<close>.
\<close>

definition hash_step :: "32 word \<Rightarrow> 16 word \<Rightarrow> 32 word" where
  "hash_step h c = (push_bit 5 h - h) + ucast c"

definition hash :: "jsstring \<Rightarrow> string" where
  "hash t =
     (if length t = 0 then ''0''
      else toString16 \<bar>sint (foldl hash_step 0 t)\<bar>)"

section \<open>Core types\<close>

definition TranslatorType_values :: "string list" where
  "TranslatorType_values = [''openai'', ''custom'']"

definition LanguageCode_values :: "string list" where
  "LanguageCode_values =
    [''auto'', ''zh-CN'', ''zh-TW'', ''en'', ''ja'', ''ko'', ''fr'', ''de'', ''es'', ''ru'',
     ''it'', ''pt'', ''ar'', ''th'', ''vi'', ''id'', ''ms'', ''nl'', ''pl'', ''tr'',
     ''sv'', ''da'', ''no'', ''fi'', ''cs'', ''hu'', ''ro'', ''bg'', ''hr'', ''sk'',
     ''sl'', ''et'', ''lv'', ''lt'', ''uk'', ''el'', ''he'', ''fa'', ''hi'', ''bn'',
     ''ur'', ''ta'', ''te'', ''ml'', ''kn'', ''gu'', ''pa'', ''mr'', ''ne'', ''si'',
     ''my'', ''km'', ''lo'', ''ka'', ''am'', ''sw'', ''zu'', ''af'', ''sq'', ''az'',
     ''be'', ''bs'', ''eu'', ''ca'', ''cy'', ''eo'', ''gl'', ''is'', ''ga'', ''mt'',
     ''mk'', ''la'', ''mi'', ''sm'', ''sn'', ''st'', ''tl'', ''to'', ''xh'', ''yo'',
     ''haw'', ''ceb'', ''ny'', ''co'', ''fy'', ''gd'', ''hmn'', ''lb'', ''ps'', ''sd'',
     ''uz'', ''kk'', ''ky'', ''tg'', ''mn'', ''yi'']"

definition AUTO :: string where
  "AUTO = ''auto''"

datatype TranslationStatus = pending | success | error | cancelled

record TranslationRequest =
  req_text :: jsstring
  req_sourceLang :: string
  req_targetLang :: string
  req_translator :: string
  req_maxTokens :: "int option"

record TranslationResponse =
  originalText :: jsstring
  translatedText :: jsstring
  sourceLang :: string
  targetLang :: string
  translator :: string
  status :: TranslationStatus
  err :: "string option"
  timestamp :: int

record TranslatorConfig =
  cfg_type :: string
  cfg_name :: string
  cfg_enabled :: bool
  apiKey :: "string option"
  apiUrl :: "string option"
  model :: "string option"
  maxTokens :: "int option"
  temperature :: "rat option"
  timeout :: "int option"
  retryCount :: "int option"
  customHeaders :: "(string \<times> string) list option"

record Advanced =
  enableCache :: bool
  cacheExpiry :: int
  enableLogging :: bool
  logLevel :: string
  adv_maxTokens :: int

record PluginSettings =
  defaultTranslator :: string
  defaultTargetLang :: string
  defaultDisplayMode :: string
  translators :: "(string \<times> TranslatorConfig) list"
  hotkeys :: "(string \<times> string) list"
  advanced :: Advanced

text \<open>\<open>DEFAULT_CONFIG\<close> of the configuration service.\<close>

definition DEFAULT_CONFIG :: PluginSettings where
  "DEFAULT_CONFIG =
     \<lparr> defaultTranslator = ''openai'',
       defaultTargetLang = ''zh-CN'',
       defaultDisplayMode = ''popup'',
       translators =
         [(''openai'', \<lparr> cfg_type = ''openai'', cfg_name = ''OpenAI'', cfg_enabled = False,
              apiKey = None, apiUrl = None, model = None, maxTokens = None,
              temperature = None, timeout = Some 30000, retryCount = Some 3,
              customHeaders = None \<rparr>),
          (''custom'', \<lparr> cfg_type = ''custom'', cfg_name = ''Custom'', cfg_enabled = False,
              apiKey = None, apiUrl = None, model = None, maxTokens = None,
              temperature = None, timeout = Some 30000, retryCount = Some 3,
              customHeaders = None \<rparr>)],
       hotkeys = [(''translate'', ''Ctrl+Shift+T''),
                  (''translateAndReplace'', ''Ctrl+Shift+R''),
                  (''showSidebar'', ''Ctrl+Shift+S'')],
       advanced = \<lparr> enableCache = True, cacheExpiry = 24 * 60 * 60 * 1000,
                    enableLogging = True, logLevel = ''info'', adv_maxTokens = 128000 \<rparr> \<rparr>"

text \<open>
  What a \<open>catch\<close> block can receive: an \<open>Error\<close> instance with its message, or the plain
  \<open>TranslationError\<close> object (an interface, not a subclass of \<open>Error\<close>) that the translator
  base class throws.
\<close>

record TranslationError =
  te_code :: string
  te_message :: string
  te_timestamp :: int
  te_translatorType :: string
  te_originalText :: jsstring
  te_sourceLanguage :: string
  te_targetLanguage :: string

datatype thrown = Error string | ErrorObject TranslationError

text \<open>\<open>error instanceof Error ? error.message : 'Unknown error'\<close>\<close>

fun message_of :: "thrown \<Rightarrow> string" where
  "message_of (Error m) = m"
| "message_of (ErrorObject e) = ''Unknown error''"

section \<open>ValidationUtils\<close>

definition validateLanguageCode :: "string \<Rightarrow> bool" where
  "validateLanguageCode code = (if code = [] then False else code \<in> set LanguageCode_values)"

text \<open>The character class of \<open>validateText\<close>: \<open>\w\<close>, U+4E00 to U+9FFF, U+3040 to U+309F, U+30A0 to U+30FF.\<close>

definition isValidContentChar :: "16 word \<Rightarrow> bool" where
  "isValidContentChar c =
     (isWordChar c \<or> (0x4e00 \<le> c \<and> c \<le> 0x9fff) \<or> (0x3040 \<le> c \<and> c \<le> 0x309f)
      \<or> (0x30a0 \<le> c \<and> c \<le> 0x30ff))"

definition validateText :: "jsstring \<Rightarrow> bool" where
  "validateText t =
     (if t = [] then False
      else let trimmedText = trim t in
        if length trimmedText = 0 then False
        else list_ex isValidContentChar trimmedText)"

definition validateApiKey :: "string \<Rightarrow> string \<Rightarrow> bool" where
  "validateApiKey key ty =
     (if key = [] then False
      else let trimmedKey = trim_ascii key in
        if length trimmedKey = 0 then False
        else if ty = ''openai'' then
          take 3 trimmedKey = ''sk-'' \<and> length trimmedKey = 51
          \<and> list_all (\<lambda>c. isAlnum (of_nat (of_char c))) (drop 3 trimmedKey)
        else if ty = ''custom'' then 8 \<le> length trimmedKey \<and> length trimmedKey \<le> 200
        else False)"

text \<open>
  The object \<open>{ ...config, translatorType: type }\<close> that the factory hands to
  \<open>validateConfig\<close>: the fields of a \<open>TranslatorConfig\<close> and the three properties the
  validator asks for (\<open>None\<close>: the property is not in the object).
\<close>

record ConfigObject = TranslatorConfig +
  translatorType :: "string option"
  sourceLanguage :: "string option"
  targetLanguage :: "string option"

definition with_translatorType :: "TranslatorConfig \<Rightarrow> string \<Rightarrow> ConfigObject" where
  "with_translatorType c ty =
     TranslatorConfig.extend c (ConfigObject.fields (Some ty) None None)"

text \<open>
  The messages pushed to \<open>errors\<close> are Chinese literals in the source; they are kept as
  constructors: missing required field, invalid translator type, invalid source language
  code, invalid target language code, invalid API key format.
\<close>

datatype ConfigProblem =
  MissingField string | InvalidTranslatorType | InvalidSourceLanguage
  | InvalidTargetLanguage | InvalidApiKeyFormat

record ValidationResult =
  valid :: bool
  errors :: "ConfigProblem list"

definition truthy :: "string option \<Rightarrow> bool" where
  "truthy v = (case v of None \<Rightarrow> False | Some s \<Rightarrow> s \<noteq> [])"

definition validateConfig :: "ConfigObject \<Rightarrow> ValidationResult" where
  "validateConfig config =
     (let errors =
        (if translatorType config = None then [MissingField ''translatorType''] else [])
        @ (if sourceLanguage config = None then [MissingField ''sourceLanguage''] else [])
        @ (if targetLanguage config = None then [MissingField ''targetLanguage''] else [])
        @ (if truthy (translatorType config)
              \<and> the (translatorType config) \<notin> set TranslatorType_values
           then [InvalidTranslatorType] else [])
        @ (if truthy (sourceLanguage config)
              \<and> \<not> validateLanguageCode (the (sourceLanguage config))
           then [InvalidSourceLanguage] else [])
        @ (if truthy (targetLanguage config)
              \<and> \<not> validateLanguageCode (the (targetLanguage config))
           then [InvalidTargetLanguage] else [])
        @ (if truthy (apiKey config) \<and> truthy (translatorType config)
              \<and> \<not> validateApiKey (the (apiKey config)) (the (translatorType config))
           then [InvalidApiKeyFormat] else [])
      in \<lparr> valid = (length errors = 0), errors = errors \<rparr>)"

text \<open>
  \<open>!x\<close> where \<open>x\<close> is the object returned by \<open>validateConfig\<close>: every JavaScript object is
  truthy, whatever its \<open>valid\<close> field holds.
\<close>

definition object_truthy :: "ValidationResult \<Rightarrow> bool" where
  "object_truthy r = True"

text \<open>
  \<open>s.replace(re, '')\<close> for a global regular expression: \<open>m\<close> gives the length of the match
  that starts at the current position, if there is one; the counter holds how many
  characters of the current match are still to be dropped.
\<close>

fun removeMatches :: "(jsstring \<Rightarrow> nat option) \<Rightarrow> nat \<Rightarrow> jsstring \<Rightarrow> jsstring" where
  "removeMatches m k [] = []"
| "removeMatches m (Suc k) (c # cs) = removeMatches m k cs"
| "removeMatches m 0 (c # cs) =
     (case m (c # cs) of
        Some n \<Rightarrow> removeMatches m (n - 1) cs
      | None \<Rightarrow> c # removeMatches m 0 cs)"

text \<open>\<open>[\s\S]*?<\/script>\<close>: up to and including the first closing tag.\<close>

fun findClose :: "jsstring \<Rightarrow> nat option" where
  "findClose [] = None"
| "findClose (c # cs) =
     (if ci_prefix ''</script>'' (c # cs) then Some 9 else map_option Suc (findClose cs))"

text \<open>\<open>/<script[^>]*>[\s\S]*?<\/script>/gi\<close>\<close>

definition dangerousTags :: "jsstring \<Rightarrow> nat option" where
  "dangerousTags s =
     (if ci_prefix ''<script'' s then
        (let attrs = takeWhile (\<lambda>c. c \<noteq> 0x3E) (drop 7 s) in
         case drop (7 + length attrs) s of
           [] \<Rightarrow> None
         | gt # body \<Rightarrow> map_option (\<lambda>n. 7 + length attrs + 1 + n) (findClose body))
      else None)"

text \<open>\<open>/\s(on\w+|javascript:)[^>]*/gi\<close>\<close>

definition dangerousAttributes :: "jsstring \<Rightarrow> nat option" where
  "dangerousAttributes s =
     (case s of
        [] \<Rightarrow> None
      | c # r \<Rightarrow>
          if isWhiteSpace c
             \<and> ((ci_prefix ''on'' r \<and> (case drop 2 r of [] \<Rightarrow> False | d # ds \<Rightarrow> isWordChar d))
                 \<or> ci_prefix ''javascript:'' r)
          then Some (1 + length (takeWhile (\<lambda>c. c \<noteq> 0x3E) r))
          else None)"

definition sanitizeHtml :: "jsstring \<Rightarrow> jsstring" where
  "sanitizeHtml html =
     (if html = [] then []
      else trim (removeMatches dangerousAttributes 0 (removeMatches dangerousTags 0 html)))"

section \<open>BaseTranslator\<close>

text \<open>
  What a concrete translator class supplies to the base class. \<open>doTranslate\<close> reaches the
  provider, whose answer may depend on when it is asked: it takes the time of the call.
  A hook that throws does so with \<open>new Error(message)\<close>.
\<close>

record Adapter =
  getType :: string
  getName :: string
  getSupportedLanguages :: "string list"
  adapterValidateConfig :: "TranslatorConfig \<Rightarrow> bool"
  doInitialize :: "TranslatorConfig \<Rightarrow> string option"
  doTranslate :: "int \<Rightarrow> jsstring \<Rightarrow> string \<Rightarrow> string \<Rightarrow> string + jsstring"
  doDestroy :: "string option"

record Translator =
  t_adapter :: Adapter
  t_config :: TranslatorConfig
  t_isInitialized :: bool

text \<open>\<open>new Constructor(config)\<close>\<close>

definition construct :: "Adapter \<Rightarrow> TranslatorConfig \<Rightarrow> Translator" where
  "construct a config = \<lparr> t_adapter = a, t_config = config, t_isInitialized = False \<rparr>"

text \<open>\<open>initialize(config)\<close>: the thrown value, if any, and the instance as it is left.\<close>

definition initialize :: "Translator \<Rightarrow> TranslatorConfig \<Rightarrow> thrown option \<times> Translator" where
  "initialize t config =
     (let t1 = t\<lparr> t_config := config \<rparr> in
      if \<not> adapterValidateConfig (t_adapter t1) (t_config t1)
      then (Some (Error ''Configuration validation failed''), t1)
      else case doInitialize (t_adapter t1) (t_config t1) of
             Some m \<Rightarrow> (Some (Error m), t1)
           | None \<Rightarrow> (None, t1\<lparr> t_isInitialized := True \<rparr>))"

definition destroy :: "Translator \<Rightarrow> thrown option \<times> Translator" where
  "destroy t =
     (case doDestroy (t_adapter t) of
        Some m \<Rightarrow> (Some (Error m), t)
      | None \<Rightarrow> (None, t\<lparr> t_isInitialized := False \<rparr>))"

text \<open>\<open>validateRequest\<close>: the message of the \<open>Error\<close> it throws, if it throws.\<close>

definition validateRequest :: "Translator \<Rightarrow> TranslationRequest \<Rightarrow> string option" where
  "validateRequest t request =
     (let supportedLanguages = getSupportedLanguages (t_adapter t) in
      if req_text request = [] \<or> \<not> validateText (req_text request)
        then Some ''Invalid text for translation''
      else if req_sourceLang request = [] \<or> \<not> validateLanguageCode (req_sourceLang request)
        then Some ''Invalid source language code''
      else if \<not> validateLanguageCode (req_targetLang request)
        then Some ''Invalid target language code''
      else if req_sourceLang request = req_targetLang request
        then Some ''Source and target languages cannot be the same''
      else if req_sourceLang request \<notin> set supportedLanguages
        then Some (''Source language '' @ req_sourceLang request @ '' is not supported'')
      else if req_targetLang request \<notin> set supportedLanguages
        then Some (''Target language '' @ req_targetLang request @ '' is not supported'')
      else None)"

text \<open>\<open>replace(/\s+/g, ' ')\<close>: the flag tells whether the previous character was white space.\<close>

fun collapseWhiteSpace :: "bool \<Rightarrow> jsstring \<Rightarrow> jsstring" where
  "collapseWhiteSpace prev [] = []"
| "collapseWhiteSpace prev (c # cs) =
     (if isWhiteSpace c
      then (if prev then collapseWhiteSpace True cs else 0x20 # collapseWhiteSpace True cs)
      else c # collapseWhiteSpace False cs)"

definition preprocessText :: "jsstring \<Rightarrow> jsstring" where
  "preprocessText t =
     filter (\<lambda>c. \<not> ((0x200B \<le> c \<and> c \<le> 0x200D) \<or> c = 0xFEFF))
       (collapseWhiteSpace False (trim t))"

definition postprocessText :: "jsstring \<Rightarrow> jsstring" where
  "postprocessText t = trim t"

definition getErrorCode :: "string \<Rightarrow> string" where
  "getErrorCode message =
     (if js_includes message ''API key'' then ''INVALID_API_KEY''
      else if js_includes message ''network'' \<or> js_includes message ''fetch'' then ''NETWORK_ERROR''
      else if js_includes message ''rate limit'' then ''RATE_LIMIT_EXCEEDED''
      else if js_includes message ''quota'' then ''QUOTA_EXCEEDED''
      else if js_includes message ''language'' then ''UNSUPPORTED_LANGUAGE''
      else ''UNKNOWN_ERROR'')"

definition createTranslationError ::
  "Translator \<Rightarrow> int \<Rightarrow> string \<Rightarrow> TranslationRequest \<Rightarrow> thrown" where
  "createTranslationError t now message request =
     ErrorObject \<lparr> te_code = getErrorCode message, te_message = message, te_timestamp = now,
       te_translatorType = getType (t_adapter t), te_originalText = req_text request,
       te_sourceLanguage = req_sourceLang request, te_targetLanguage = req_targetLang request \<rparr>"

text \<open>
  \<open>translate(request)\<close> at time \<open>now\<close>: what it returns or throws, and the calls of
  \<open>doTranslate\<close> it made (text, source language, target language).
\<close>

type_synonym backend_call = "jsstring \<times> string \<times> string"

definition translate ::
  "Translator \<Rightarrow> int \<Rightarrow> TranslationRequest \<Rightarrow> (thrown + TranslationResponse) \<times> backend_call list" where
  "translate t now request =
     (if \<not> t_isInitialized t
      then (Inl (createTranslationError t now ''Translator not initialized'' request), [])
      else case validateRequest t request of
        Some m \<Rightarrow> (Inl (createTranslationError t now m request), [])
      | None \<Rightarrow>
          (let preprocessedText = preprocessText (req_text request);
               call = (preprocessedText, req_sourceLang request, req_targetLang request)
           in case doTranslate (t_adapter t) now preprocessedText
                     (req_sourceLang request) (req_targetLang request) of
                Inl m \<Rightarrow> (Inl (createTranslationError t now m request), [call])
              | Inr raw \<Rightarrow>
                  (Inr \<lparr> originalText = req_text request,
                         translatedText = postprocessText raw,
                         sourceLang = req_sourceLang request,
                         targetLang = req_targetLang request,
                         translator = getType (t_adapter t),
                         status = success, err = None, timestamp = now \<rparr>, [call])))"

section \<open>TranslatorFactory\<close>

text \<open>
  The two \<open>Map\<close>s of the factory are association lists in insertion order:
  \<open>AList.update\<close> is \<open>Map.set\<close> (an existing key keeps its place, a new key goes to the end),
  \<open>map_of\<close> is \<open>Map.get\<close>, \<open>AList.delete\<close> is \<open>Map.delete\<close>.
\<close>

record TranslatorRegistration =
  reg_type :: string
  reg_constructor :: Adapter
  reg_name :: string
  reg_description :: string

record TranslatorFactory =
  f_translators :: "(string \<times> TranslatorRegistration) list"
  f_instances :: "(string \<times> Translator) list"

text \<open>
  What the environment supplies to one call: the value of \<open>Date.now()\<close>, the five characters
  of \<open>Math.random().toString(36).substr(2, 5)\<close> and the result of \<open>generateUUID()\<close>.
\<close>

record Env =
  env_now :: int
  env_random :: string
  env_uuid :: string

function digits10 :: "int \<Rightarrow> string" where
  "digits10 n =
     (if n < 10 then [''0123456789'' ! nat n]
      else digits10 (n div 10) @ [''0123456789'' ! nat (n mod 10)])"
  by pat_completeness auto
termination
  by (relation "measure nat") auto

declare digits10.simps [simp del]

definition toString10 :: "int \<Rightarrow> string" where
  "toString10 n = (if n < 0 then ''-'' @ digits10 (- n) else digits10 n)"

definition registerTranslatorFull ::
  "TranslatorFactory \<Rightarrow> string \<Rightarrow> Adapter \<Rightarrow> string \<Rightarrow> string \<Rightarrow> TranslatorFactory" where
  "registerTranslatorFull f ty ctor nm description =
     f\<lparr> f_translators :=
          AList.update ty \<lparr> reg_type = ty, reg_constructor = ctor, reg_name = nm,
                            reg_description = description \<rparr> (f_translators f) \<rparr>"

definition generateInstanceId :: "Env \<Rightarrow> string \<Rightarrow> string" where
  "generateInstanceId env ty = ty @ ''_'' @ toString10 (env_now env) @ ''_'' @ env_random env"

definition destroyInstance :: "TranslatorFactory \<Rightarrow> string \<Rightarrow> thrown option \<times> TranslatorFactory" where
  "destroyInstance f instanceId =
     (case map_of (f_instances f) instanceId of
        None \<Rightarrow> (None, f)
      | Some instance \<Rightarrow>
          (case destroy instance of
             (Some e, t) \<Rightarrow> (Some e, f)
           | (None, t) \<Rightarrow> (None, f\<lparr> f_instances := AList.delete instanceId (f_instances f) \<rparr>)))"

text \<open>
  \<open>createTranslatorAsync(type, config, instanceId?)\<close>; an absent \<open>instanceId\<close> is the empty
  string. The result is the instance or the thrown value, and the factory as it is left.
\<close>

definition createTranslatorAsync ::
  "Env \<Rightarrow> TranslatorFactory \<Rightarrow> string \<Rightarrow> TranslatorConfig \<Rightarrow> string
     \<Rightarrow> (thrown + Translator) \<times> TranslatorFactory" where
  "createTranslatorAsync env f ty config instanceId =
     (case map_of (f_translators f) ty of
        None \<Rightarrow> (Inl (Error (''Translator type '' @ ty @ '' is not registered'')), f)
      | Some registration \<Rightarrow>
          if \<not> object_truthy (validateConfig (with_translatorType config ty))
          then (Inl (Error ''Invalid translator configuration''), f)
          else
            (let ident = js_or instanceId (generateInstanceId env ty) in
             case (if map_of (f_instances f) ident \<noteq> None then destroyInstance f ident
                   else (None, f)) of
               (Some e, f1) \<Rightarrow> (Inl e, f1)
             | (None, f1) \<Rightarrow>
                 (case initialize (construct (reg_constructor registration) config) config of
                    (Some e, t) \<Rightarrow> (Inl e, f1)
                  | (None, instance) \<Rightarrow>
                      (Inr instance,
                       f1\<lparr> f_instances := AList.update ident instance (f_instances f1) \<rparr>))))"

section \<open>ContentTranslationService\<close>

record TranslationCacheItem =
  ci_originalText :: jsstring
  ci_translatedText :: jsstring
  ci_sourceLang :: string
  ci_targetLang :: string
  ci_translator :: string
  ci_timestamp :: int
  ci_hash :: string

record TranslationHistory =
  h_id :: string
  h_originalText :: jsstring
  h_translatedText :: jsstring
  h_sourceLang :: string
  h_targetLang :: string
  h_translator :: string
  h_timestamp :: int

datatype TaskStatus = task_pending | running | completed | failed

text \<open>
  \<open>progress\<close> is a JavaScript number; the model keeps the exact quotient.
\<close>

record BatchTranslationTask =
  task_id :: string
  task_texts :: "jsstring list"
  task_from :: string
  task_to :: string
  task_translator :: string
  task_progress :: rat
  task_status :: TaskStatus
  task_results :: "TranslationResponse list"
  task_errors :: "string list"
  task_startTime :: "int option"
  task_endTime :: "int option"

text \<open>
  The fields of the service; \<open>settings\<close> is what \<open>configService.getSettings()\<close> returns.
\<close>

record ContentTranslationService =
  settings :: PluginSettings
  translatorFactory :: TranslatorFactory
  translationCache :: "(string \<times> TranslationCacheItem) list"
  translationHistory :: "TranslationHistory list"
  batchTasks :: "(string \<times> BatchTranslationTask) list"
  isInitialized :: bool

definition generateTextHash :: "jsstring \<Rightarrow> string \<Rightarrow> string \<Rightarrow> string \<Rightarrow> string" where
  "generateTextHash t src tgt tr = hash (t @ js ''|'' @ js src @ js ''|'' @ js tgt @ js ''|'' @ js tr)"

definition getCachedTranslation ::
  "ContentTranslationService \<Rightarrow> jsstring \<Rightarrow> string \<Rightarrow> string \<Rightarrow> string
     \<Rightarrow> TranslationCacheItem option" where
  "getCachedTranslation s t src tgt tr = map_of (translationCache s) (generateTextHash t src tgt tr)"

definition cacheTranslation ::
  "Env \<Rightarrow> ContentTranslationService \<Rightarrow> jsstring \<Rightarrow> TranslationResponse \<Rightarrow> string
     \<Rightarrow> ContentTranslationService" where
  "cacheTranslation env s t response tr =
     (let h = generateTextHash t (sourceLang response) (targetLang response) tr;
          cacheItem = \<lparr> ci_originalText = t, ci_translatedText = translatedText response,
                        ci_sourceLang = sourceLang response, ci_targetLang = targetLang response,
                        ci_translator = tr, ci_timestamp = env_now env, ci_hash = h \<rparr>;
          c1 = AList.update h cacheItem (translationCache s)
      in s\<lparr> translationCache :=
              (if length c1 > 1000
               then (case c1 of [] \<Rightarrow> c1 | (oldestKey, v) # rest \<Rightarrow> AList.delete oldestKey c1)
               else c1) \<rparr>)"

definition createResponseFromCache :: "Env \<Rightarrow> TranslationCacheItem \<Rightarrow> TranslationResponse" where
  "createResponseFromCache env cacheItem =
     \<lparr> originalText = ci_originalText cacheItem, translatedText = ci_translatedText cacheItem,
       sourceLang = ci_sourceLang cacheItem, targetLang = ci_targetLang cacheItem,
       translator = ci_translator cacheItem, status = success, err = None,
       timestamp = env_now env \<rparr>"

definition addToHistory ::
  "Env \<Rightarrow> ContentTranslationService \<Rightarrow> TranslationResponse \<Rightarrow> string
     \<Rightarrow> ContentTranslationService" where
  "addToHistory env s response tr =
     (let historyItem = \<lparr> h_id = env_uuid env, h_originalText = originalText response,
                          h_translatedText = translatedText response,
                          h_sourceLang = sourceLang response, h_targetLang = targetLang response,
                          h_translator = tr, h_timestamp = timestamp response \<rparr>;
          h1 = translationHistory s @ [historyItem];
          maxHistorySize = 1000
      in s\<lparr> translationHistory :=
              (if length h1 > maxHistorySize then drop (length h1 - maxHistorySize) h1 else h1) \<rparr>)"

text \<open>
  The \<open>try\<close> block of \<open>translateText\<close>: the response it returns or the value it throws, the
  service as it is left, and the calls of \<open>doTranslate\<close> that were made.
\<close>

definition translateText_try ::
  "Env \<Rightarrow> ContentTranslationService \<Rightarrow> TranslationRequest
     \<Rightarrow> (thrown + TranslationResponse) \<times> ContentTranslationService \<times> backend_call list" where
  "translateText_try env s request =
     (if \<not> isInitialized s then (Inl (Error ''Service not initialized''), s, [])
      else
        (let config = settings s;
             sourceLanguage = js_or (req_sourceLang request) AUTO;
             tgt = req_targetLang request;
             t = req_text request;
             tr = js_or (req_translator request) (defaultTranslator config);
             cachedResult =
               (if enableCache (advanced config) then getCachedTranslation s t sourceLanguage tgt tr
                else None)
         in case cachedResult of
              Some cacheItem \<Rightarrow> (Inr (createResponseFromCache env cacheItem), s, [])
            | None \<Rightarrow>
                (let mt = (if adv_maxTokens (advanced config) = 0 then 128000
                           else adv_maxTokens (advanced config));
                     translationRequest =
                       \<lparr> req_text = sanitizeHtml t, req_sourceLang = sourceLanguage,
                         req_targetLang = tgt, req_translator = tr, req_maxTokens = Some mt \<rparr>
                 in case map_of (translators config) tr of
                      None \<Rightarrow> (Inl (Error (''Translator '' @ tr @ '' not configured'')), s, [])
                    | Some translatorConfig \<Rightarrow>
                        (case createTranslatorAsync env (translatorFactory s) tr
                                (translatorConfig\<lparr> maxTokens := Some mt \<rparr>) [] of
                           (Inl e, f1) \<Rightarrow> (Inl e, s\<lparr> translatorFactory := f1 \<rparr>, [])
                         | (Inr translatorInstance, f1) \<Rightarrow>
                             (case translate translatorInstance (env_now env) translationRequest of
                                (Inl e, calls) \<Rightarrow> (Inl e, s\<lparr> translatorFactory := f1 \<rparr>, calls)
                              | (Inr response, calls) \<Rightarrow>
                                  (let s1 = s\<lparr> translatorFactory := f1 \<rparr>;
                                       s2 = (if enableCache (advanced config)
                                                \<and> status response = success
                                             then cacheTranslation env s1 t response tr else s1)
                                   in (Inr response, addToHistory env s2 response tr, calls)))))))"

definition translateText ::
  "Env \<Rightarrow> ContentTranslationService \<Rightarrow> TranslationRequest
     \<Rightarrow> TranslationResponse \<times> ContentTranslationService \<times> backend_call list" where
  "translateText env s request =
     (case translateText_try env s request of
        (Inr response, s1, calls) \<Rightarrow> (response, s1, calls)
      | (Inl e, s1, calls) \<Rightarrow>
          (\<lparr> originalText = req_text request, translatedText = [],
             sourceLang = js_or (req_sourceLang request) AUTO,
             targetLang = req_targetLang request,
             translator = js_or (req_translator request) (defaultTranslator (settings s1)),
             status = error, err = Some (message_of e), timestamp = env_now env \<rparr>,
           s1, calls))"

section \<open>Batch translation tasks\<close>

text \<open>
  \<open>executeBatchTranslation\<close> is an asynchronous function: it runs until its next \<open>await\<close>,
  and other code of the single thread (such as \<open>cancelBatchTranslation\<close>) runs only while it
  is suspended there. \<open>BatchPc\<close> says where it is suspended: at the \<open>await\<close> of
  \<open>createTranslatorAsync\<close> (with what that call will deliver), at the \<open>await\<close> of the
  \<open>translate\<close> call of chunk \<open>i\<close> (with the instance in use and what the call will deliver),
  or not at all (its promise is settled: resolved, or rejected with a value). A call is
  evaluated when it is issued. \<open>bx_calls\<close> records the \<open>doTranslate\<close> calls made so far.

  The task object is reached through \<open>batchTasks\<close> under its id, which stands for the
  reference the source holds; nothing modelled here removes a task from that map.
\<close>

datatype BatchPc =
  AwaitCreate "thrown + Translator"
  | AwaitTranslate nat Translator "thrown + TranslationResponse"
  | Settled "thrown option"

record BatchExecution =
  bx_taskId :: string
  bx_pc :: BatchPc
  bx_calls :: "backend_call list"

definition modifyTask ::
  "ContentTranslationService \<Rightarrow> string \<Rightarrow> (BatchTranslationTask \<Rightarrow> BatchTranslationTask)
     \<Rightarrow> ContentTranslationService" where
  "modifyTask s taskId g =
     (case map_of (batchTasks s) taskId of
        None \<Rightarrow> s
      | Some task \<Rightarrow> s\<lparr> batchTasks := AList.update taskId (g task) (batchTasks s) \<rparr>)"

text \<open>\<open>error.message\<close>, read without a test of the class.\<close>

fun thrown_message :: "thrown \<Rightarrow> string" where
  "thrown_message (Error m) = m"
| "thrown_message (ErrorObject e) = te_message e"

text \<open>The \<open>.catch\<close> handler that \<open>startBatchTranslation\<close> attaches to the execution.\<close>

definition rejectBatch ::
  "ContentTranslationService \<Rightarrow> BatchExecution \<Rightarrow> thrown
     \<Rightarrow> ContentTranslationService \<times> BatchExecution" where
  "rejectBatch s bx e =
     (modifyTask s (bx_taskId bx)
        (\<lambda>task. task\<lparr> task_status := failed,
                        task_errors := task_errors task @ [thrown_message e] \<rparr>),
      bx\<lparr> bx_pc := Settled (Some e) \<rparr>)"

text \<open>
  \<open>executeBatchTranslation\<close> from its entry to the \<open>await\<close> of \<open>createTranslatorAsync\<close>.
\<close>

definition executeBatchTranslation ::
  "Env \<Rightarrow> ContentTranslationService \<Rightarrow> string \<Rightarrow> ContentTranslationService \<times> BatchExecution" where
  "executeBatchTranslation env s taskId =
     (let bx = \<lparr> bx_taskId = taskId, bx_pc = Settled None, bx_calls = [] \<rparr> in
      case map_of (batchTasks s) taskId of
        None \<Rightarrow> rejectBatch s bx (Error ''Task not found'')
      | Some task \<Rightarrow>
          (let s1 = modifyTask s taskId
                      (\<lambda>task. task\<lparr> task_status := running,
                                      task_startTime := Some (env_now env) \<rparr>)
           in case map_of (translators (settings s1)) (task_translator task) of
                None \<Rightarrow>
                  rejectBatch s1 bx
                    (Error (''Translator '' @ task_translator task @ '' not configured''))
              | Some translatorConfig \<Rightarrow>
                  (case createTranslatorAsync env (translatorFactory s1) (task_translator task)
                          translatorConfig [] of
                     (r, f1) \<Rightarrow> (s1\<lparr> translatorFactory := f1 \<rparr>, bx\<lparr> bx_pc := AwaitCreate r \<rparr>))))"

definition startBatchTranslation ::
  "Env \<Rightarrow> ContentTranslationService \<Rightarrow> jsstring list \<Rightarrow> string \<Rightarrow> string \<Rightarrow> string
     \<Rightarrow> string \<times> ContentTranslationService \<times> BatchExecution" where
  "startBatchTranslation env s texts src tgt ty =
     (let taskId = env_uuid env;
          task = \<lparr> task_id = taskId, task_texts = texts, task_from = src, task_to = tgt,
                   task_translator = ty, task_progress = 0,
                   task_status = task_pending, task_results = [], task_errors = [],
                   task_startTime = None, task_endTime = None \<rparr>
      in (taskId,
          executeBatchTranslation env
            (s\<lparr> batchTasks := AList.update taskId task (batchTasks s) \<rparr>) taskId))"

text \<open>
  The \<open>for\<close> loop from its head at index \<open>i\<close>: it leaves the loop when the texts are exhausted
  or the status is no longer \<open>running\<close>, and then marks the task \<open>completed\<close>; otherwise it
  issues the \<open>translate\<close> call of chunk \<open>i\<close> and is suspended.
\<close>

definition batchLoop ::
  "Env \<Rightarrow> ContentTranslationService \<Rightarrow> BatchExecution \<Rightarrow> Translator \<Rightarrow> nat
     \<Rightarrow> ContentTranslationService \<times> BatchExecution" where
  "batchLoop env s bx translatorInstance i =
     (case map_of (batchTasks s) (bx_taskId bx) of
        None \<Rightarrow> (s, bx\<lparr> bx_pc := Settled None \<rparr>)
      | Some task \<Rightarrow>
          if i < length (task_texts task) \<and> task_status task = running
          then
            (case translate translatorInstance (env_now env)
                    \<lparr> req_text = task_texts task ! i, req_sourceLang = task_from task,
                      req_targetLang = task_to task, req_translator = task_translator task,
                      req_maxTokens = None \<rparr> of
               (outcome, calls) \<Rightarrow>
                 (s, bx\<lparr> bx_pc := AwaitTranslate i translatorInstance outcome,
                         bx_calls := bx_calls bx @ calls \<rparr>))
          else
            (modifyTask s (bx_taskId bx)
               (\<lambda>task. task\<lparr> task_status := completed, task_endTime := Some (env_now env) \<rparr>),
             bx\<lparr> bx_pc := Settled None \<rparr>))"

text \<open>What the loop body does with the settled \<open>translate\<close> call of chunk \<open>i\<close>.\<close>

definition recordChunk ::
  "Env \<Rightarrow> nat \<Rightarrow> (thrown + TranslationResponse) \<Rightarrow> BatchTranslationTask \<Rightarrow> BatchTranslationTask" where
  "recordChunk env i outcome task =
     (case outcome of
        Inr response \<Rightarrow>
          task\<lparr> task_results := task_results task @ [response],
                task_errors :=
                  (if status response = error
                   then task_errors task
                        @ [case err response of None \<Rightarrow> ''Unknown error''
                           | Some m \<Rightarrow> js_or m ''Unknown error'']
                   else task_errors task) \<rparr>
      | Inl e \<Rightarrow>
          task\<lparr> task_errors := task_errors task @ [message_of e],
                task_results := task_results task
                  @ [\<lparr> originalText = task_texts task ! i, translatedText = [],
                       sourceLang = task_from task, targetLang = task_to task,
                       translator = task_translator task, status = error,
                       err = Some (message_of e), timestamp = env_now env \<rparr>] \<rparr>)
       \<lparr> task_progress := (of_nat (i + 1) / of_nat (length (task_texts task))) * 100 \<rparr>"

text \<open>The execution continues after the call it was waiting for has settled.\<close>

definition resumeBatch ::
  "Env \<Rightarrow> ContentTranslationService \<times> BatchExecution
     \<Rightarrow> ContentTranslationService \<times> BatchExecution" where
  "resumeBatch env sb =
     (case sb of (s, bx) \<Rightarrow>
        (case bx_pc bx of
           Settled r \<Rightarrow> (s, bx)
         | AwaitCreate (Inl e) \<Rightarrow> rejectBatch s bx e
         | AwaitCreate (Inr translatorInstance) \<Rightarrow> batchLoop env s bx translatorInstance 0
         | AwaitTranslate i translatorInstance outcome \<Rightarrow>
             batchLoop env (modifyTask s (bx_taskId bx) (recordChunk env i outcome)) bx
               translatorInstance (i + 1)))"

definition cancelBatchTranslation ::
  "ContentTranslationService \<Rightarrow> string \<Rightarrow> bool \<times> ContentTranslationService" where
  "cancelBatchTranslation s taskId =
     (case map_of (batchTasks s) taskId of
        None \<Rightarrow> (False, s)
      | Some task \<Rightarrow>
          if task_status task = completed then (False, s)
          else (True,
                modifyTask s taskId
                  (\<lambda>task. task\<lparr> task_status := failed,
                     task_errors := task_errors task @ [''Translation cancelled by user''] \<rparr>)))"

text \<open>
  What happens to a batch execution, in order: the awaited call settles and the execution
  continues, or the caller cancels the task while the execution is suspended.
\<close>

datatype BatchEvent = Resume Env | Cancel

fun batchEvent ::
  "ContentTranslationService \<times> BatchExecution \<Rightarrow> BatchEvent
     \<Rightarrow> ContentTranslationService \<times> BatchExecution" where
  "batchEvent sb (Resume env) = resumeBatch env sb"
| "batchEvent sb Cancel = (snd (cancelBatchTranslation (fst sb) (bx_taskId (snd sb))), snd sb)"

definition runBatch ::
  "ContentTranslationService \<times> BatchExecution \<Rightarrow> BatchEvent list
     \<Rightarrow> ContentTranslationService \<times> BatchExecution" where
  "runBatch sb evs = foldl batchEvent sb evs"

section \<open>HttpUtils\<close>

text \<open>
  What one attempt of \<open>request\<close> meets: \<open>fetch\<close> throws an \<open>Error\<close> with a name and a message
  (a network failure, or the abort of the timeout); or a response arrives and its body is
  read; or a response with some status arrives and reading its body (\<open>response.json()\<close>,
  \<open>response.text()\<close>) throws an \<open>Error\<close> with a name and a message. The body is read before
  the status is tested. \<open>HttpError\<close> is the error class of the transport itself, with the
  status and the response data.
\<close>

record HttpResponse =
  http_data :: jsstring
  http_status :: int
  http_statusText :: string
  http_headers :: "(string \<times> string) list"

datatype RequestError =
  JsError string string
  | HttpError string "int option" jsstring

datatype FetchOutcome =
  FetchThrows string string
  | FetchResponds HttpResponse
  | FetchUnreadable int string string

text \<open>
  The fields of the configuration that the retry loop reads. \<open>retries\<close> is a count (the
  callers pass a retry count of zero or more). The method, the headers, the body and the
  timeout only shape the call of \<open>fetch\<close>; what that call meets, an abort on timeout
  included, is the \<open>FetchOutcome\<close> of the attempt.
\<close>

record HttpRequestConfig =
  retries :: nat
  retryDelay :: int
  validateStatus :: "int \<Rightarrow> bool"

definition defaultValidateStatus :: "int \<Rightarrow> bool" where
  "defaultValidateStatus st = (st \<ge> 200 \<and> st < 300)"

text \<open>The defaults of \<open>request\<close>: three retries, one second, a 2xx status.\<close>

definition defaultRequestConfig :: HttpRequestConfig where
  "defaultRequestConfig =
     \<lparr> retries = 3, retryDelay = 1000, validateStatus = defaultValidateStatus \<rparr>"

fun shouldRetry :: "RequestError \<Rightarrow> bool" where
  "shouldRetry (JsError nm message) =
     (if nm = ''TypeError'' \<and> js_includes message ''fetch'' then True
      else if nm = ''AbortError'' then True
      else False)"
| "shouldRetry (HttpError message st d) =
     (case st of None \<Rightarrow> False | Some n \<Rightarrow> if n = 0 then False else n \<ge> 500)"

text \<open>The \<open>try\<close> block of one attempt.\<close>

definition attemptOnce :: "HttpRequestConfig \<Rightarrow> FetchOutcome \<Rightarrow> RequestError + HttpResponse" where
  "attemptOnce config outcome =
     (case outcome of
        FetchThrows nm message \<Rightarrow> Inl (JsError nm message)
      | FetchUnreadable st nm message \<Rightarrow> Inl (JsError nm message)
      | FetchResponds response \<Rightarrow>
          if \<not> validateStatus config (http_status response)
          then Inl (HttpError (''Request failed with status '' @ toString10 (http_status response)
                               @ '': '' @ http_statusText response)
                      (Some (http_status response)) (http_data response))
          else Inr response)"

text \<open>
  What \<open>request\<close> does, in order: the attempts and the delays between them (milliseconds).
\<close>

datatype TransportEvent = Attempt nat | Delay int

text \<open>
  The \<open>for\<close> loop of \<open>request\<close> from attempt number \<open>attempt\<close>; \<open>fetch n\<close> is what attempt \<open>n\<close>
  meets. The result is thrown (\<open>Inl\<close>, the value of \<open>lastError\<close>, \<open>None\<close> while it is
  unassigned) or returned.
\<close>

function request_loop ::
  "HttpRequestConfig \<Rightarrow> (nat \<Rightarrow> FetchOutcome) \<Rightarrow> nat \<Rightarrow> RequestError option
     \<Rightarrow> (RequestError option + HttpResponse) \<times> TransportEvent list" where
  "request_loop config fetch attempt lastError =
     (if attempt \<le> retries config then
        (case attemptOnce config (fetch attempt) of
           Inr response \<Rightarrow> (Inr response, [Attempt attempt])
         | Inl e \<Rightarrow>
             if attempt = retries config then (Inl (Some e), [Attempt attempt])
             else if shouldRetry e then
               apsnd (\<lambda>evs. Attempt attempt # Delay (retryDelay config * 2 ^ attempt) # evs)
                 (request_loop config fetch (Suc attempt) (Some e))
             else (Inl (Some e), [Attempt attempt]))
      else (Inl lastError, []))"
  by pat_completeness auto
termination
  by (relation "measure (\<lambda>(config, fetch, attempt, lastError). Suc (retries config) - attempt)") auto

declare request_loop.simps [simp del]

definition request ::
  "HttpRequestConfig \<Rightarrow> (nat \<Rightarrow> FetchOutcome)
     \<Rightarrow> (RequestError option + HttpResponse) \<times> TransportEvent list" where
  "request config fetch = request_loop config fetch 0 None"



section \<open>Fixtures\<close>

text \<open>
  Concrete values at which the theorems below are instantiated: a stub translator class
  whose provider answers every call with the two code units U+4F60 U+597D, a factory that
  has it registered as \<open>openai\<close>, and an initialized service with the default settings;
  then requests, endpoints and the like, and a few auxiliary functions in which
  intermediate lemmas are stated.
\<close>

definition stubAdapter :: Adapter where
  "stubAdapter =
     \<lparr> getType = ''openai'', getName = ''Stub'',
       getSupportedLanguages = [''auto'', ''zh-CN'', ''en''],
       adapterValidateConfig = (\<lambda>c. True),
       doInitialize = (\<lambda>c. None),
       doTranslate = (\<lambda>now t src tgt. Inr [0x4F60, 0x597D]),
       doDestroy = None \<rparr>"

definition stubFactory :: TranslatorFactory where
  "stubFactory = registerTranslatorFull \<lparr> f_translators = [], f_instances = [] \<rparr>
       ''openai'' stubAdapter ''Stub'' ''A stub backend''"

definition stubService :: ContentTranslationService where
  "stubService =
     \<lparr> settings = DEFAULT_CONFIG, translatorFactory = stubFactory, translationCache = [],
       translationHistory = [], batchTasks = [], isInitialized = True \<rparr>"

definition helloRequest :: TranslationRequest where
  "helloRequest = \<lparr> req_text = js ''Hello'', req_sourceLang = ''auto'', req_targetLang = ''zh-CN'',
       req_translator = ''openai'', req_maxTokens = None \<rparr>"

definition env0 :: Env where
  "env0 = \<lparr> env_now = 1700000000000, env_random = ''abcde'', env_uuid = ''00000000-0000-4000-8000-000000000000'' \<rparr>"

definition helloItem :: TranslationCacheItem where
  "helloItem = \<lparr> ci_originalText = js ''Hello'', ci_translatedText = [0x4F60, 0x597D],
       ci_sourceLang = ''auto'', ci_targetLang = ''zh-CN'', ci_translator = ''openai'',
       ci_timestamp = 0, ci_hash = ''236a6927'' \<rparr>"

definition fullCache :: "(string \<times> TranslationCacheItem) list" where
  "fullCache = map (\<lambda>i. (replicate (Suc i) CHR ''a'', helloItem\<lparr> ci_hash := replicate (Suc i) CHR ''a'' \<rparr>)) [0..<1000]"

definition helloResponse :: TranslationResponse where
  "helloResponse = \<lparr> originalText = js ''Hello'', translatedText = [0x4F60, 0x597D],
       sourceLang = ''auto'', targetLang = ''zh-CN'', translator = ''openai'',
       status = success, err = None, timestamp = 1700000000000 \<rparr>"

definition openaiConfig :: TranslatorConfig where
  "openaiConfig = \<lparr> cfg_type = ''openai'', cfg_name = ''OpenAI'', cfg_enabled = False,
              apiKey = None, apiUrl = None, model = None, maxTokens = None,
              temperature = None, timeout = Some 30000, retryCount = Some 3,
              customHeaders = None \<rparr>"

definition stubTranslator :: Translator where
  "stubTranslator = snd (initialize (construct stubAdapter openaiConfig) openaiConfig)"

definition frenchRequest :: TranslationRequest where
  "frenchRequest = \<lparr> req_text = js ''Hello'', req_sourceLang = ''en'', req_targetLang = ''fr'',
       req_translator = ''openai'', req_maxTokens = None \<rparr>"






definition env1 :: Env where
  "env1 = \<lparr> env_now = 1700000005000, env_random = ''fghij'',
            env_uuid = ''11111111-1111-4111-8111-111111111111'' \<rparr>"

definition worldRequest :: TranslationRequest where
  "worldRequest = \<lparr> req_text = js ''World'', req_sourceLang = ''auto'', req_targetLang = ''zh-CN'',
       req_translator = ''openai'', req_maxTokens = None \<rparr>"

definition agedService :: ContentTranslationService where
  "agedService = stubService\<lparr> translationCache := [(''236a6927'', helloItem)] \<rparr>"

definition quietService :: ContentTranslationService where
  "quietService =
     stubService\<lparr> settings := DEFAULT_CONFIG\<lparr> advanced :=
        \<lparr> enableCache = False, cacheExpiry = 24 * 60 * 60 * 1000, enableLogging = False,
          logLevel = ''info'', adv_maxTokens = 128000 \<rparr> \<rparr> \<rparr>"

definition failingAdapter :: Adapter where
  "failingAdapter =
     stubAdapter\<lparr> doTranslate := (\<lambda>now t src tgt.
        Inl ''Invalid OpenAI API key. Please check your configuration.'') \<rparr>"

definition failingService :: ContentTranslationService where
  "failingService =
     stubService\<lparr> translatorFactory :=
        registerTranslatorFull \<lparr> f_translators = [], f_instances = [] \<rparr>
          ''openai'' failingAdapter ''Failing'' ''A backend that rejects the API key'' \<rparr>"

definition badKeyConfig :: TranslatorConfig where
  "badKeyConfig = openaiConfig\<lparr> apiKey := Some ''bad'' \<rparr>"

definition env2 :: Env where
  "env2 = \<lparr> env_now = 1700000009000, env_random = ''klmno'',
            env_uuid = ''22222222-2222-4222-8222-222222222222'' \<rparr>"

definition twoChunks :: "string \<times> ContentTranslationService \<times> BatchExecution" where
  "twoChunks =
     startBatchTranslation env0 stubService [js ''Hello'', js ''World''] ''auto'' ''zh-CN'' ''openai''"

text \<open>
  A batch run without cancellation, for the statement of its result: the request the loop
  builds for chunk \<open>i\<close>, what the \<open>translate\<close> call of chunk \<open>i\<close> delivers when it is issued at
  the \<open>i\<close>-th continuation, the entry the loop body then appends to \<open>results\<close> and the
  entries it appends to \<open>errors\<close>; and the state of the task and of the execution after
  \<open>j\<close> chunks have been recorded.
\<close>

definition chunkRequest :: "jsstring list \<Rightarrow> string \<Rightarrow> string \<Rightarrow> string \<Rightarrow> nat \<Rightarrow> TranslationRequest" where
  "chunkRequest texts src tgt ty i =
     \<lparr> req_text = texts ! i, req_sourceLang = src, req_targetLang = tgt, req_translator = ty,
       req_maxTokens = None \<rparr>"

definition chunkOutcome ::
  "Translator \<Rightarrow> Env list \<Rightarrow> jsstring list \<Rightarrow> string \<Rightarrow> string \<Rightarrow> string \<Rightarrow> nat
     \<Rightarrow> thrown + TranslationResponse" where
  "chunkOutcome inst envs texts src tgt ty i =
     fst (translate inst (env_now (envs ! i)) (chunkRequest texts src tgt ty i))"

definition chunkResult ::
  "Translator \<Rightarrow> Env list \<Rightarrow> jsstring list \<Rightarrow> string \<Rightarrow> string \<Rightarrow> string \<Rightarrow> nat
     \<Rightarrow> TranslationResponse" where
  "chunkResult inst envs texts src tgt ty i =
     (case chunkOutcome inst envs texts src tgt ty i of
        Inr response \<Rightarrow> response
      | Inl e \<Rightarrow>
          \<lparr> originalText = texts ! i, translatedText = [], sourceLang = src, targetLang = tgt,
            translator = ty, status = error, err = Some (message_of e),
            timestamp = env_now (envs ! Suc i) \<rparr>)"

definition chunkErrors ::
  "Translator \<Rightarrow> Env list \<Rightarrow> jsstring list \<Rightarrow> string \<Rightarrow> string \<Rightarrow> string \<Rightarrow> nat
     \<Rightarrow> string list" where
  "chunkErrors inst envs texts src tgt ty i =
     (case chunkOutcome inst envs texts src tgt ty i of
        Inr response \<Rightarrow> []
      | Inl e \<Rightarrow> [message_of e])"

definition batchRecorded ::
  "Translator \<Rightarrow> Env list \<Rightarrow> jsstring list \<Rightarrow> string \<Rightarrow> string \<Rightarrow> string \<Rightarrow> TaskStatus \<Rightarrow> nat
     \<Rightarrow> BatchTranslationTask \<Rightarrow> bool" where
  "batchRecorded inst envs texts src tgt ty st j task =
     (task_texts task = texts \<and> task_from task = src \<and> task_to task = tgt
      \<and> task_translator task = ty \<and> task_status task = st
      \<and> task_results task = map (chunkResult inst envs texts src tgt ty) [0..<j]
      \<and> task_errors task = concat (map (chunkErrors inst envs texts src tgt ty) [0..<j]))"

definition batchWaiting ::
  "Translator \<Rightarrow> Env list \<Rightarrow> jsstring list \<Rightarrow> string \<Rightarrow> string \<Rightarrow> string \<Rightarrow> string \<Rightarrow> nat
     \<Rightarrow> ContentTranslationService \<times> BatchExecution \<Rightarrow> bool" where
  "batchWaiting inst envs texts src tgt ty taskId j sb =
     (bx_taskId (snd sb) = taskId
      \<and> bx_pc (snd sb) = AwaitTranslate j inst (chunkOutcome inst envs texts src tgt ty j)
      \<and> (\<exists>task. map_of (batchTasks (fst sb)) taskId = Some task
             \<and> batchRecorded inst envs texts src tgt ty running j task))"

definition batchDone ::
  "Translator \<Rightarrow> Env list \<Rightarrow> jsstring list \<Rightarrow> string \<Rightarrow> string \<Rightarrow> string \<Rightarrow> string
     \<Rightarrow> ContentTranslationService \<times> BatchExecution \<Rightarrow> bool" where
  "batchDone inst envs texts src tgt ty taskId sb =
     (bx_pc (snd sb) = Settled None
      \<and> (\<exists>task. map_of (batchTasks (fst sb)) taskId = Some task
             \<and> batchRecorded inst envs texts src tgt ty completed (length texts) task))"

definition threeTexts :: "jsstring list" where
  "threeTexts = [js ''Hello'', [], js ''World'']"

definition batchEnvs :: "Env list" where
  "batchEnvs = [env1, env2, env2, env2]"

definition threeChunks :: "string \<times> ContentTranslationService \<times> BatchExecution" where
  "threeChunks = startBatchTranslation env0 stubService threeTexts ''auto'' ''zh-CN'' ''openai''"





section \<open>The translation cache\<close>

lemma length_update_le: "length (AList.update k v al) \<le> Suc (length al)"
  by (induction al) auto

lemma update_fresh: "k \<notin> fst ` set al \<Longrightarrow> AList.update k v al = al @ [(k, v)]"
  by (induction al) auto

lemma delete_absent: "k \<notin> fst ` set al \<Longrightarrow> AList.delete k al = al"
  by (induction al) auto

lemma cacheTranslation_bound:
  assumes "length (translationCache s) \<le> 1000"
  shows "length (translationCache (cacheTranslation env s t response tr)) \<le> 1000"
proof -
  let ?h = "generateTextHash t (sourceLang response) (targetLang response) tr"
  let ?item = "\<lparr> ci_originalText = t, ci_translatedText = translatedText response,
                        ci_sourceLang = sourceLang response, ci_targetLang = targetLang response,
                        ci_translator = tr, ci_timestamp = env_now env, ci_hash = ?h \<rparr>"
  let ?c1 = "AList.update ?h ?item (translationCache s)"
  have le: "length ?c1 \<le> 1001"
    using length_update_le[of ?h ?item "translationCache s"] assms by simp
  show ?thesis
  proof (cases ?c1)
    case Nil
    then show ?thesis by (simp add: cacheTranslation_def Let_def)
  next
    case (Cons p rest)
    obtain k v where p: "p = (k, v)" by (cases p)
    have "length (AList.delete k ?c1) \<le> length rest"
      using Cons p by (simp add: AList.delete_eq le_trans[OF length_filter_le])
    moreover have "length rest \<le> 1000" using le Cons by simp
    ultimately show ?thesis
      using Cons p by (simp add: cacheTranslation_def Let_def)
  qed
qed

lemma cacheTranslation_evicts_oldest:
  assumes d: "distinct (map fst (translationCache s))"
    and n: "length (translationCache s) = 1000"
    and fresh: "generateTextHash t (sourceLang response) (targetLang response) tr
                  \<notin> fst ` set (translationCache s)"
  shows "translationCache (cacheTranslation env s t response tr)
         = tl (translationCache s)
           @ [(generateTextHash t (sourceLang response) (targetLang response) tr,
               \<lparr> ci_originalText = t, ci_translatedText = translatedText response,
                 ci_sourceLang = sourceLang response, ci_targetLang = targetLang response,
                 ci_translator = tr, ci_timestamp = env_now env,
                 ci_hash = generateTextHash t (sourceLang response) (targetLang response) tr \<rparr>)]"
proof -
  let ?h = "generateTextHash t (sourceLang response) (targetLang response) tr"
  obtain k v rest where c: "translationCache s = (k, v) # rest"
    using n by (cases "translationCache s") auto
  have kh: "k \<noteq> ?h" using fresh c by auto
  have krest: "k \<notin> fst ` set rest" using d c by auto
  have "\<And>x. AList.delete k (rest @ [(?h, x)]) = rest @ [(?h, x)]"
    using krest kh by (intro delete_absent) auto
  then show ?thesis
    using c n kh fresh
    by (simp add: cacheTranslation_def Let_def update_fresh)
qed

lemma translateText_hit:
  assumes "isInitialized s" and "enableCache (advanced (settings s))"
    and "getCachedTranslation s (req_text req) (js_or (req_sourceLang req) AUTO)
           (req_targetLang req)
           (js_or (req_translator req) (defaultTranslator (settings s))) = Some item"
  shows "translateText env s req = (createResponseFromCache env item, s, [])"
  using assms by (simp add: translateText_def translateText_try_def Let_def)

text \<open>
  Claim C8. The translation cache is bounded: from a cache of at most 1000 entries,
  \<open>cacheTranslation\<close> leaves at most 1000 entries; when a new key is stored in a full cache
  the entry that goes is the first of the insertion order (the oldest inserted), all other
  entries keep their order and the new one is last; and a cache hit in \<open>translateText\<close>
  returns the service unchanged, so a hit does not change which entry goes next.
\<close>

theorem cache_bounded_oldest_inserted_evicted:
  "(length (translationCache s) \<le> 1000
      \<longrightarrow> length (translationCache (cacheTranslation env s t response tr)) \<le> 1000)
   \<and> (distinct (map fst (translationCache s)) \<and> length (translationCache s) = 1000
        \<and> generateTextHash t (sourceLang response) (targetLang response) tr
              \<notin> fst ` set (translationCache s)
      \<longrightarrow> translationCache (cacheTranslation env s t response tr)
          = tl (translationCache s)
            @ [(generateTextHash t (sourceLang response) (targetLang response) tr,
                \<lparr> ci_originalText = t, ci_translatedText = translatedText response,
                  ci_sourceLang = sourceLang response, ci_targetLang = targetLang response,
                  ci_translator = tr, ci_timestamp = env_now env,
                  ci_hash = generateTextHash t (sourceLang response) (targetLang response) tr \<rparr>)])
   \<and> (isInitialized s' \<and> enableCache (advanced (settings s'))
        \<and> getCachedTranslation s' (req_text req) (js_or (req_sourceLang req) AUTO)
              (req_targetLang req)
              (js_or (req_translator req) (defaultTranslator (settings s'))) = Some item
      \<longrightarrow> translateText env' s' req = (createResponseFromCache env' item, s', []))"
  using cacheTranslation_bound cacheTranslation_evicts_oldest translateText_hit
  by blast

lemma fullCache_length: "length fullCache = 1000"
  by (simp add: fullCache_def)

lemma fullCache_keys: "fst ` set fullCache = (\<lambda>i. replicate (Suc i) CHR ''a'') ` {0..<1000}"
  by (auto simp: fullCache_def image_iff)

lemma fullCache_distinct: "distinct (map fst fullCache)"
proof -
  have "inj_on (\<lambda>i::nat. replicate (Suc i) CHR ''a'') (set [0..<1000])"
    by (rule inj_onI) (metis length_replicate nat.inject)
  then show ?thesis
    by (simp add: fullCache_def comp_def distinct_map)
qed

lemma hello_hash: "generateTextHash (js ''Hello'') ''auto'' ''zh-CN'' ''openai'' = ''236a6927''"
  by code_simp

theorem cache_bounded_oldest_inserted_evicted_witness:
  "length (translationCache (stubService\<lparr> translationCache := fullCache \<rparr>)) \<le> 1000
   \<and> length (translationCache
        (cacheTranslation env0 (stubService\<lparr> translationCache := fullCache \<rparr>) (js ''Hello'')
           helloResponse ''openai'')) \<le> 1000
   \<and> distinct (map fst (translationCache (stubService\<lparr> translationCache := fullCache \<rparr>)))
   \<and> length (translationCache (stubService\<lparr> translationCache := fullCache \<rparr>)) = 1000
   \<and> ''236a6927'' \<notin> fst ` set (translationCache (stubService\<lparr> translationCache := fullCache \<rparr>))
   \<and> translationCache
        (cacheTranslation env0 (stubService\<lparr> translationCache := fullCache \<rparr>) (js ''Hello'')
           helloResponse ''openai'')
       = tl fullCache @ [(''236a6927'', helloItem\<lparr> ci_timestamp := 1700000000000 \<rparr>)]
   \<and> isInitialized (stubService\<lparr> translationCache := [(''236a6927'', helloItem)] \<rparr>)
   \<and> enableCache (advanced (settings (stubService\<lparr> translationCache := [(''236a6927'', helloItem)] \<rparr>)))
   \<and> translateText env0 (stubService\<lparr> translationCache := [(''236a6927'', helloItem)] \<rparr>)
         helloRequest
       = (createResponseFromCache env0 helloItem,
          stubService\<lparr> translationCache := [(''236a6927'', helloItem)] \<rparr>, [])"
proof -
  let ?s = "stubService\<lparr> translationCache := fullCache \<rparr>"
  let ?s' = "stubService\<lparr> translationCache := [(''236a6927'', helloItem)] \<rparr>"
  have h: "generateTextHash (js ''Hello'') (sourceLang helloResponse) (targetLang helloResponse)
             ''openai'' = ''236a6927''"
    using hello_hash by (simp add: helloResponse_def)
  have a1: "length (translationCache ?s) \<le> 1000" by (simp add: fullCache_length)
  have a2: "distinct (map fst (translationCache ?s))" by (simp add: fullCache_distinct)
  have a3: "length (translationCache ?s) = 1000" by (simp add: fullCache_length)
  have a4: "''236a6927'' \<notin> fst ` set (translationCache ?s)"
    by (auto simp: fullCache_keys)
  have b1: "isInitialized ?s'" by (simp add: stubService_def)
  have b2: "enableCache (advanced (settings ?s'))" by (simp add: stubService_def DEFAULT_CONFIG_def)
  have b3: "getCachedTranslation ?s' (req_text helloRequest)
              (js_or (req_sourceLang helloRequest) AUTO) (req_targetLang helloRequest)
              (js_or (req_translator helloRequest) (defaultTranslator (settings ?s')))
            = Some helloItem"
    using hello_hash
    by (simp add: getCachedTranslation_def helloRequest_def js_or_def)
  note inst = cache_bounded_oldest_inserted_evicted
    [of ?s env0 "js ''Hello''" helloResponse "''openai''" ?s' helloRequest helloItem env0]
  have c1: "length (translationCache (cacheTranslation env0 ?s (js ''Hello'') helloResponse ''openai''))
              \<le> 1000"
    using inst a1 by blast
  have c2: "translationCache (cacheTranslation env0 ?s (js ''Hello'') helloResponse ''openai'')
            = tl fullCache @ [(''236a6927'', helloItem\<lparr> ci_timestamp := 1700000000000 \<rparr>)]"
    using inst a2 a3 a4 h by (simp add: helloResponse_def helloItem_def env0_def)
  have c3: "translateText env0 ?s' helloRequest = (createResponseFromCache env0 helloItem, ?s', [])"
    using inst b1 b2 b3 by blast
  show ?thesis using a1 a2 a3 a4 b1 b2 c1 c2 c3 by blast
qed

section \<open>The translator base class\<close>

lemma validateRequest_None_iff:
  "validateRequest t r = None \<longleftrightarrow>
     (req_text r \<noteq> [] \<and> validateText (req_text r)
      \<and> validateLanguageCode (req_sourceLang r) \<and> validateLanguageCode (req_targetLang r)
      \<and> req_sourceLang r \<noteq> req_targetLang r
      \<and> req_sourceLang r \<in> set (getSupportedLanguages (t_adapter t))
      \<and> req_targetLang r \<in> set (getSupportedLanguages (t_adapter t)))"
  by (auto simp: validateRequest_def Let_def validateLanguageCode_def)

text \<open>
  Claim C7. \<open>translate\<close> of the translator base class throws, and makes no call of the
  adapter's \<open>doTranslate\<close>, when the translator is not initialized, the text is empty or
  invalid, a language code is malformed, source and target are the same, or a language
  code is not among \<open>getSupportedLanguages()\<close>. (In every other case it makes exactly one
  call, with the preprocessed text.)
\<close>

theorem translate_rejects_before_doTranslate:
  "(\<not> t_isInitialized t \<or> req_text r = [] \<or> \<not> validateText (req_text r)
      \<or> \<not> validateLanguageCode (req_sourceLang r) \<or> \<not> validateLanguageCode (req_targetLang r)
      \<or> req_sourceLang r = req_targetLang r
      \<or> req_sourceLang r \<notin> set (getSupportedLanguages (t_adapter t))
      \<or> req_targetLang r \<notin> set (getSupportedLanguages (t_adapter t))
    \<longrightarrow> (\<exists>e. fst (translate t now r) = Inl e) \<and> snd (translate t now r) = [])
   \<and> (t_isInitialized t \<and> req_text r \<noteq> [] \<and> validateText (req_text r)
      \<and> validateLanguageCode (req_sourceLang r) \<and> validateLanguageCode (req_targetLang r)
      \<and> req_sourceLang r \<noteq> req_targetLang r
      \<and> req_sourceLang r \<in> set (getSupportedLanguages (t_adapter t))
      \<and> req_targetLang r \<in> set (getSupportedLanguages (t_adapter t))
    \<longrightarrow> snd (translate t now r)
          = [(preprocessText (req_text r), req_sourceLang r, req_targetLang r)])"
proof (intro conjI impI)
  assume bad: "\<not> t_isInitialized t \<or> req_text r = [] \<or> \<not> validateText (req_text r)
      \<or> \<not> validateLanguageCode (req_sourceLang r) \<or> \<not> validateLanguageCode (req_targetLang r)
      \<or> req_sourceLang r = req_targetLang r
      \<or> req_sourceLang r \<notin> set (getSupportedLanguages (t_adapter t))
      \<or> req_targetLang r \<notin> set (getSupportedLanguages (t_adapter t))"
  have "\<not> t_isInitialized t \<or> validateRequest t r \<noteq> None"
    using bad validateRequest_None_iff[of t r] by blast
  then show "\<exists>e. fst (translate t now r) = Inl e" and "snd (translate t now r) = []"
    by (auto simp: translate_def split: option.splits)
next
  assume ok: "t_isInitialized t \<and> req_text r \<noteq> [] \<and> validateText (req_text r)
      \<and> validateLanguageCode (req_sourceLang r) \<and> validateLanguageCode (req_targetLang r)
      \<and> req_sourceLang r \<noteq> req_targetLang r
      \<and> req_sourceLang r \<in> set (getSupportedLanguages (t_adapter t))
      \<and> req_targetLang r \<in> set (getSupportedLanguages (t_adapter t))"
  then have "validateRequest t r = None"
    using validateRequest_None_iff[of t r] by blast
  with ok show "snd (translate t now r)
          = [(preprocessText (req_text r), req_sourceLang r, req_targetLang r)]"
    by (simp add: translate_def Let_def split: sum.splits)
qed

lemma stubTranslator_simps:
  "t_isInitialized stubTranslator" "t_adapter stubTranslator = stubAdapter"
  by (simp_all add: stubTranslator_def initialize_def construct_def stubAdapter_def Let_def)

theorem translate_rejects_before_doTranslate_witness:
  "t_isInitialized stubTranslator
   \<and> validateLanguageCode (req_targetLang frenchRequest)
   \<and> req_targetLang frenchRequest \<notin> set (getSupportedLanguages (t_adapter stubTranslator))
   \<and> fst (translate stubTranslator 1700000000000 frenchRequest)
       = Inl (createTranslationError stubTranslator 1700000000000
                ''Target language fr is not supported'' frenchRequest)
   \<and> snd (translate stubTranslator 1700000000000 frenchRequest) = []"
proof -
  have a: "req_targetLang frenchRequest \<notin> set (getSupportedLanguages (t_adapter stubTranslator))"
    by (simp add: stubTranslator_simps stubAdapter_def frenchRequest_def)
  have b: "validateLanguageCode (req_targetLang frenchRequest)"
    by (simp add: frenchRequest_def validateLanguageCode_def LanguageCode_values_def)
  have c: "snd (translate stubTranslator 1700000000000 frenchRequest) = []"
    using translate_rejects_before_doTranslate[of stubTranslator frenchRequest 1700000000000] a
    by blast
  have v: "validateText (js ''Hello'')"
    by code_simp
  have d: "fst (translate stubTranslator 1700000000000 frenchRequest)
       = Inl (createTranslationError stubTranslator 1700000000000
                ''Target language fr is not supported'' frenchRequest)"
    using v
    by (simp add: translate_def stubTranslator_simps validateRequest_def Let_def frenchRequest_def
        stubAdapter_def validateLanguageCode_def LanguageCode_values_def js_def)
  show ?thesis using a b c d stubTranslator_simps(1) by blast
qed

section \<open>The retrying transport\<close>




















section \<open>Single translations through the service\<close>

lemma translate_Inr:
  assumes "translate t now r = (Inr resp, calls)"
  shows "status resp = success" "sourceLang resp = req_sourceLang r"
    "targetLang resp = req_targetLang r" "originalText resp = req_text r"
    "calls = [(preprocessText (req_text r), req_sourceLang r, req_targetLang r)]"
    "timestamp resp = now"
  using assms
  by (auto simp: translate_def Let_def split: if_splits option.splits sum.splits)

lemma translateText_try_cases:
  assumes "translateText_try env s req = (res, s1, calls)"
  obtains
    (uninitialized) "\<not> isInitialized s" "res = Inl (Error ''Service not initialized'')"
      "s1 = s" "calls = []"
  | (hit) cacheItem where "isInitialized s" "enableCache (advanced (settings s))"
      "getCachedTranslation s (req_text req) (js_or (req_sourceLang req) AUTO)
         (req_targetLang req) (js_or (req_translator req) (defaultTranslator (settings s)))
       = Some cacheItem"
      "res = Inr (createResponseFromCache env cacheItem)" "s1 = s" "calls = []"
  | (failed) e where "isInitialized s" "res = Inl e"
      "translationCache s1 = translationCache s" "translationHistory s1 = translationHistory s"
      "settings s1 = settings s" "isInitialized s1 = isInitialized s"
      "batchTasks s1 = batchTasks s"
  | (translated) response f1 where "isInitialized s"
      "enableCache (advanced (settings s)) \<longrightarrow>
         getCachedTranslation s (req_text req) (js_or (req_sourceLang req) AUTO)
           (req_targetLang req) (js_or (req_translator req) (defaultTranslator (settings s)))
         = None"
      "res = Inr response" "status response = success"
      "sourceLang response = js_or (req_sourceLang req) AUTO"
      "targetLang response = req_targetLang req"
      "calls \<noteq> []"
      "s1 = addToHistory env
              (if enableCache (advanced (settings s))
               then cacheTranslation env (s\<lparr> translatorFactory := f1 \<rparr>) (req_text req) response
                      (js_or (req_translator req) (defaultTranslator (settings s)))
               else s\<lparr> translatorFactory := f1 \<rparr>)
              response (js_or (req_translator req) (defaultTranslator (settings s)))"
proof (cases "isInitialized s")
  case False
  have "res = Inl (Error ''Service not initialized'')" "s1 = s" "calls = []"
    using assms False by (auto simp add: translateText_try_def)
  with False show ?thesis by (intro uninitialized)
next
  case init: True
  let ?src = "js_or (req_sourceLang req) AUTO"
  let ?tr = "js_or (req_translator req) (defaultTranslator (settings s))"
  let ?cached = "if enableCache (advanced (settings s))
     then getCachedTranslation s (req_text req) ?src (req_targetLang req) ?tr else None"
  show ?thesis
  proof (cases ?cached)
    case (Some cacheItem)
    then have "enableCache (advanced (settings s))"
      and "getCachedTranslation s (req_text req) ?src (req_targetLang req) ?tr = Some cacheItem"
      by (auto split: if_splits)
    moreover have "res = Inr (createResponseFromCache env cacheItem)" "s1 = s" "calls = []"
      using assms init Some by (auto simp add: translateText_try_def Let_def)
    ultimately show ?thesis using init by (intro hit[of cacheItem])
  next
    case None
    then have miss: "enableCache (advanced (settings s)) \<longrightarrow>
         getCachedTranslation s (req_text req) ?src (req_targetLang req) ?tr = None"
      by (auto split: if_splits)
    let ?mt = "if adv_maxTokens (advanced (settings s)) = 0 then 128000
               else adv_maxTokens (advanced (settings s))"
    show ?thesis
    proof (cases "map_of (translators (settings s)) ?tr")
      case cfgNone: None
      have "res = Inl (Error (''Translator '' @ ?tr @ '' not configured''))" "s1 = s"
        using assms init None cfgNone by (auto simp add: translateText_try_def Let_def)
      then show ?thesis using init by (intro failed) simp_all
    next
      case (Some translatorConfig)
      obtain cr f1 where cr: "createTranslatorAsync env (translatorFactory s) ?tr
              (translatorConfig\<lparr> maxTokens := Some ?mt \<rparr>) [] = (cr, f1)"
        by (cases "createTranslatorAsync env (translatorFactory s) ?tr
              (translatorConfig\<lparr> maxTokens := Some ?mt \<rparr>) []")
      show ?thesis
      proof (cases cr)
        case (Inl e)
        have "res = Inl e" "s1 = s\<lparr> translatorFactory := f1 \<rparr>"
          using assms init None Some cr Inl by (auto simp add: translateText_try_def Let_def)
        then show ?thesis using init by (intro failed[of e]) simp_all
      next
        case (Inr inst)
        let ?treq = "\<lparr> req_text = sanitizeHtml (req_text req), req_sourceLang = ?src,
                         req_targetLang = req_targetLang req, req_translator = ?tr,
                         req_maxTokens = Some ?mt \<rparr>"
        obtain tres tcalls where tr: "translate inst (env_now env) ?treq = (tres, tcalls)"
          by (cases "translate inst (env_now env) ?treq")
        show ?thesis
        proof (cases tres)
          case e: (Inl e)
          have "res = Inl e" "s1 = s\<lparr> translatorFactory := f1 \<rparr>"
            using assms init None Some cr Inr tr e
            by (auto simp add: translateText_try_def Let_def)
          then show ?thesis using init by (intro failed[of e]) simp_all
        next
          case r: (Inr response)
          have props: "status response = success" "sourceLang response = ?src"
            "targetLang response = req_targetLang req" "tcalls \<noteq> []"
            using translate_Inr[of inst "env_now env" ?treq response tcalls] tr r by simp_all
          have "res = Inr response" "calls = tcalls"
            "s1 = addToHistory env
              (if enableCache (advanced (settings s))
               then cacheTranslation env (s\<lparr> translatorFactory := f1 \<rparr>) (req_text req) response ?tr
               else s\<lparr> translatorFactory := f1 \<rparr>) response ?tr"
            using assms init None Some cr Inr tr r props(1)
            by (auto simp add: translateText_try_def Let_def)
          then show ?thesis using init miss props by (intro translated[of response f1]) simp_all
        qed
      qed
    qed
  qed
qed

lemma addToHistory_frame:
  "translationCache (addToHistory env s r tr) = translationCache s"
  "settings (addToHistory env s r tr) = settings s"
  "isInitialized (addToHistory env s r tr) = isInitialized s"
  "translatorFactory (addToHistory env s r tr) = translatorFactory s"
  "batchTasks (addToHistory env s r tr) = batchTasks s"
  by (simp_all add: addToHistory_def Let_def)

lemma cacheTranslation_frame:
  "translationHistory (cacheTranslation env s t r tr) = translationHistory s"
  "settings (cacheTranslation env s t r tr) = settings s"
  "isInitialized (cacheTranslation env s t r tr) = isInitialized s"
  "translatorFactory (cacheTranslation env s t r tr) = translatorFactory s"
  "batchTasks (cacheTranslation env s t r tr) = batchTasks s"
  by (simp_all add: cacheTranslation_def Let_def)

lemma map_of_delete_other: "k \<noteq> k' \<Longrightarrow> map_of (AList.delete k al) k' = map_of al k'"
  by (simp add: delete_conv)

lemma cacheTranslation_keeps:
  assumes fresh: "map_of (translationCache s)
                    (generateTextHash t (sourceLang r) (targetLang r) tr) = None"
    and k: "map_of (translationCache s) k = Some e"
  shows "map_of (translationCache (cacheTranslation env s t r tr)) k = Some e
         \<or> (length (translationCache s) \<ge> 1000 \<and> k = fst (hd (translationCache s)))"
proof -
  let ?h = "generateTextHash t (sourceLang r) (targetLang r) tr"
  let ?c = "translationCache s"
  have hk: "k \<noteq> ?h" using fresh k by auto
  have notin: "?h \<notin> fst ` set ?c" using fresh by (simp add: map_of_eq_None_iff)
  obtain p rest where c: "?c = p # rest" using k by (cases ?c) auto
  obtain k0 v0 where p: "p = (k0, v0)" by (cases p)
  have upd: "\<And>x. AList.update ?h x ?c = ?c @ [(?h, x)]"
    using notin by (rule update_fresh)
  have keep: "\<And>x. map_of (?c @ [(?h, x)]) k = Some e"
    using k by (simp add: map_add_Some_iff)
  show ?thesis
  proof (cases "k = k0")
    case True
    then show ?thesis
      using c p keep upd by (auto simp: cacheTranslation_def Let_def)
  next
    case False
    then have "\<And>x. map_of (AList.delete k0 (?c @ [(?h, x)])) k = Some e"
      using keep by (simp add: map_of_delete_other)
    then show ?thesis
      using c p keep upd by (auto simp: cacheTranslation_def Let_def)
  qed
qed

lemma cacheTranslation_lookup:
  assumes fresh: "map_of (translationCache s)
                    (generateTextHash t (sourceLang r) (targetLang r) tr) = None"
  shows "\<exists>item. map_of (translationCache (cacheTranslation env s t r tr))
                  (generateTextHash t (sourceLang r) (targetLang r) tr) = Some item
               \<and> ci_translatedText item = translatedText r"
proof -
  let ?h = "generateTextHash t (sourceLang r) (targetLang r) tr"
  let ?c = "translationCache s"
  have notin: "?h \<notin> fst ` set ?c" using fresh by (simp add: map_of_eq_None_iff)
  have upd: "\<And>x. AList.update ?h x ?c = ?c @ [(?h, x)]"
    using notin by (rule update_fresh)
  have look: "\<And>x. map_of (?c @ [(?h, x)]) ?h = Some x"
    using fresh by (simp add: map_add_Some_iff)
  show ?thesis
  proof (cases ?c)
    case Nil
    then show ?thesis by (simp add: cacheTranslation_def Let_def)
  next
    case (Cons p rest)
    obtain k0 v0 where p: "p = (k0, v0)" by (cases p)
    have "k0 \<noteq> ?h" using notin Cons p by auto
    then have "\<And>x. map_of (AList.delete k0 (?c @ [(?h, x)])) ?h = Some x"
      using look by (simp add: map_of_delete_other)
    then show ?thesis
      using Cons p upd look by (auto simp: cacheTranslation_def Let_def)
  qed
qed

lemma translateText_success_cases:
  assumes "translateText env s req = (r, s1, calls)" and "status r = success"
  obtains
    (hit) cacheItem where "isInitialized s" "enableCache (advanced (settings s))"
      "getCachedTranslation s (req_text req) (js_or (req_sourceLang req) AUTO)
         (req_targetLang req) (js_or (req_translator req) (defaultTranslator (settings s)))
       = Some cacheItem"
      "r = createResponseFromCache env cacheItem" "s1 = s" "calls = []"
  | (translated) f1 where "isInitialized s"
      "enableCache (advanced (settings s)) \<longrightarrow>
         getCachedTranslation s (req_text req) (js_or (req_sourceLang req) AUTO)
           (req_targetLang req) (js_or (req_translator req) (defaultTranslator (settings s)))
         = None"
      "sourceLang r = js_or (req_sourceLang req) AUTO"
      "targetLang r = req_targetLang req"
      "calls \<noteq> []"
      "s1 = addToHistory env
              (if enableCache (advanced (settings s))
               then cacheTranslation env (s\<lparr> translatorFactory := f1 \<rparr>) (req_text req) r
                      (js_or (req_translator req) (defaultTranslator (settings s)))
               else s\<lparr> translatorFactory := f1 \<rparr>)
              r (js_or (req_translator req) (defaultTranslator (settings s)))"
proof -
  obtain res where tt: "translateText_try env s req = (res, s1, calls)"
    using assms(1) by (auto simp: translateText_def split: prod.splits sum.splits)
  have notInl: "\<And>e. res \<noteq> Inl e"
    using assms tt by (auto simp: translateText_def)
  from tt show ?thesis
  proof (cases rule: translateText_try_cases)
    case uninitialized
    then show ?thesis using notInl by simp
  next
    case (hit cacheItem)
    moreover have "r = createResponseFromCache env cacheItem"
      using assms(1) tt hit(4) by (simp add: translateText_def)
    ultimately show ?thesis using that(1)[of cacheItem] by simp
  next
    case (failed e)
    then show ?thesis using notInl by simp
  next
    case (translated response f1)
    moreover have "r = response"
      using assms(1) tt translated(3) by (simp add: translateText_def)
    ultimately show ?thesis using that(2)[of f1] by simp
  qed
qed

text \<open>
  Claim C4. With caching enabled, after a \<open>translateText\<close> call that returned a response of
  status \<open>success\<close>, a second call with the same request (at any later time) is answered
  from the cache: its response has status \<open>success\<close> and the same \<open>translatedText\<close>, it
  makes no call of \<open>doTranslate\<close>, and it leaves the service, and so the factory's
  instances, as they were.
\<close>

theorem cache_round_trip:
  assumes "enableCache (advanced (settings s))"
    and "translateText env s req = (r1, s1, calls1)" and "status r1 = success"
  shows "status (fst (translateText env' s1 req)) = success
         \<and> translatedText (fst (translateText env' s1 req)) = translatedText r1
         \<and> snd (translateText env' s1 req) = (s1, [])"
  using assms(2,3)
proof (cases rule: translateText_success_cases)
  case (hit cacheItem)
  then have "translateText env' s1 req = (createResponseFromCache env' cacheItem, s1, [])"
    using translateText_hit[of s req cacheItem env'] by simp
  then show ?thesis using hit(4) by (simp add: createResponseFromCache_def)
next
  case (translated f1)
  let ?src = "js_or (req_sourceLang req) AUTO"
  let ?tr = "js_or (req_translator req) (defaultTranslator (settings s))"
  let ?s' = "s\<lparr> translatorFactory := f1 \<rparr>"
  have s1: "s1 = addToHistory env (cacheTranslation env ?s' (req_text req) r1 ?tr) r1 ?tr"
    using translated(6) assms(1) by simp
  have fresh: "map_of (translationCache ?s')
                 (generateTextHash (req_text req) (sourceLang r1) (targetLang r1) ?tr) = None"
    using translated(2,3,4) assms(1) by (simp add: getCachedTranslation_def)
  obtain item where item:
    "map_of (translationCache (cacheTranslation env ?s' (req_text req) r1 ?tr))
       (generateTextHash (req_text req) (sourceLang r1) (targetLang r1) ?tr) = Some item"
    "ci_translatedText item = translatedText r1"
    using cacheTranslation_lookup[OF fresh, of env] by blast
  have "getCachedTranslation s1 (req_text req) (js_or (req_sourceLang req) AUTO)
          (req_targetLang req) (js_or (req_translator req) (defaultTranslator (settings s1)))
        = Some item"
    using item(1) translated(3,4)
    by (simp add: s1 getCachedTranslation_def addToHistory_frame cacheTranslation_frame)
  moreover have "isInitialized s1" "enableCache (advanced (settings s1))"
    using translated(1) assms(1) by (simp_all add: s1 addToHistory_frame cacheTranslation_frame)
  ultimately have "translateText env' s1 req = (createResponseFromCache env' item, s1, [])"
    by (rule translateText_hit[rotated 2])
  then show ?thesis using item(2) by (simp add: createResponseFromCache_def)
qed

lemma hello_text:
  "sanitizeHtml (js ''Hello'') = js ''Hello''"
  "validateText (js ''Hello'')"
  "preprocessText (js ''Hello'') = js ''Hello''"
  "postprocessText [0x4F60, 0x597D] = [0x4F60, 0x597D]"
  "js ''Hello'' \<noteq> []"
  by code_simp+

lemma stub_create:
  "createTranslatorAsync env stubFactory ''openai'' cfg []
   = (Inr \<lparr> t_adapter = stubAdapter, t_config = cfg, t_isInitialized = True \<rparr>,
      stubFactory\<lparr> f_instances := [(generateInstanceId env ''openai'',
          \<lparr> t_adapter = stubAdapter, t_config = cfg, t_isInitialized = True \<rparr>)] \<rparr>)"
  by (simp add: createTranslatorAsync_def stubFactory_def registerTranslatorFull_def
      object_truthy_def js_or_def initialize_def construct_def stubAdapter_def Let_def)

lemma stub_translate_hello:
  "translate \<lparr> t_adapter = stubAdapter, t_config = cfg, t_isInitialized = True \<rparr> now
     \<lparr> req_text = js ''Hello'', req_sourceLang = ''auto'', req_targetLang = ''zh-CN'',
       req_translator = ''openai'', req_maxTokens = mt \<rparr>
   = (Inr \<lparr> originalText = js ''Hello'', translatedText = [0x4F60, 0x597D],
            sourceLang = ''auto'', targetLang = ''zh-CN'', translator = ''openai'',
            status = success, err = None, timestamp = now \<rparr>,
      [(js ''Hello'', ''auto'', ''zh-CN'')])"
  using hello_text
  by (simp add: translate_def validateRequest_def validateLanguageCode_def
      LanguageCode_values_def stubAdapter_def Let_def)

lemma first_call:
  "fst (translateText env0 stubService helloRequest)
    = \<lparr> originalText = js ''Hello'', translatedText = [0x4F60, 0x597D],
            sourceLang = ''auto'', targetLang = ''zh-CN'', translator = ''openai'',
            status = success, err = None, timestamp = 1700000000000 \<rparr>"
  "snd (snd (translateText env0 stubService helloRequest)) = [(js ''Hello'', ''auto'', ''zh-CN'')]"
  using hello_text(1)
  by (simp_all add: translateText_def translateText_try_def stubService_def helloRequest_def
      DEFAULT_CONFIG_def getCachedTranslation_def js_or_def AUTO_def stub_create
      stub_translate_hello env0_def Let_def)

theorem cache_round_trip_witness:
  "enableCache (advanced (settings stubService))
   \<and> status (fst (translateText env0 stubService helloRequest)) = success
   \<and> translatedText (fst (translateText env0 stubService helloRequest)) = [0x4F60, 0x597D]
   \<and> snd (snd (translateText env0 stubService helloRequest)) = [(js ''Hello'', ''auto'', ''zh-CN'')]
   \<and> status (fst (translateText env1 (fst (snd (translateText env0 stubService helloRequest)))
                  helloRequest)) = success
   \<and> translatedText (fst (translateText env1
          (fst (snd (translateText env0 stubService helloRequest))) helloRequest))
       = [0x4F60, 0x597D]
   \<and> snd (translateText env1 (fst (snd (translateText env0 stubService helloRequest)))
            helloRequest)
       = (fst (snd (translateText env0 stubService helloRequest)), [])"
proof -
  obtain r1 s1 calls1 where first: "translateText env0 stubService helloRequest = (r1, s1, calls1)"
    by (cases "translateText env0 stubService helloRequest")
  have on: "enableCache (advanced (settings stubService))"
    by (simp add: stubService_def DEFAULT_CONFIG_def)
  have r1: "r1 = \<lparr> originalText = js ''Hello'', translatedText = [0x4F60, 0x597D],
            sourceLang = ''auto'', targetLang = ''zh-CN'', translator = ''openai'',
            status = success, err = None, timestamp = 1700000000000 \<rparr>"
    and calls1: "calls1 = [(js ''Hello'', ''auto'', ''zh-CN'')]"
    using first_call first by simp_all
  have ok: "status r1 = success" by (simp add: r1)
  show ?thesis
    using cache_round_trip[OF on first ok, of env1] on first r1 calls1 by simp
qed

section \<open>Cache entries and time\<close>

lemma translateText_keeps_entries:
  assumes k: "map_of (translationCache s) k = Some e"
    and tt: "translateText env s req = (r, s1, calls)"
  shows "map_of (translationCache s1) k = Some e
         \<or> (length (translationCache s) \<ge> 1000 \<and> k = fst (hd (translationCache s)))"
proof -
  obtain res where try1: "translateText_try env s req = (res, s1, calls)"
    using tt by (auto simp: translateText_def split: prod.splits sum.splits)
  from try1 show ?thesis
  proof (cases rule: translateText_try_cases)
    case uninitialized
    then show ?thesis using k by simp
  next
    case (hit cacheItem)
    then show ?thesis using k by simp
  next
    case (failed e)
    then show ?thesis using k by simp
  next
    case (translated response f1)
    let ?tr = "js_or (req_translator req) (defaultTranslator (settings s))"
    let ?s' = "s\<lparr> translatorFactory := f1 \<rparr>"
    show ?thesis
    proof (cases "enableCache (advanced (settings s))")
      case False
      then show ?thesis using translated(8) k by (simp add: addToHistory_frame)
    next
      case True
      have fresh: "map_of (translationCache ?s')
             (generateTextHash (req_text req) (sourceLang response) (targetLang response) ?tr)
           = None"
        using translated(2,5,6) True by (simp add: getCachedTranslation_def)
      have "map_of (translationCache (cacheTranslation env ?s' (req_text req) response ?tr)) k
              = Some e
            \<or> (length (translationCache ?s') \<ge> 1000 \<and> k = fst (hd (translationCache ?s')))"
        using cacheTranslation_keeps[OF fresh, of k e env] k by simp
      then show ?thesis using translated(8) True by (simp add: addToHistory_frame)
    qed
  qed
qed

text \<open>
  Claim C10. Cache entries never expire by age: whenever caching is enabled and the cache
  holds an entry under the fingerprint of a request, \<open>translateText\<close> answers with that
  entry, at every time of the call, for every \<open>timestamp\<close> of the entry and every value of
  \<open>advanced.cacheExpiry\<close> (the statement puts no condition on the three); and a
  \<open>translateText\<close> call keeps every entry of the cache, except that a cache of 1000 or more
  entries may lose its first (oldest inserted) one.
\<close>

theorem cache_entries_never_expire:
  "(isInitialized s \<and> enableCache (advanced (settings s))
      \<and> getCachedTranslation s (req_text req) (js_or (req_sourceLang req) AUTO)
            (req_targetLang req) (js_or (req_translator req) (defaultTranslator (settings s)))
          = Some item
    \<longrightarrow> translateText env s req = (createResponseFromCache env item, s, []))
   \<and> (map_of (translationCache s') k = Some e \<and> translateText env' s' req' = (r, s1, calls)
    \<longrightarrow> map_of (translationCache s1) k = Some e
        \<or> (length (translationCache s') \<ge> 1000 \<and> k = fst (hd (translationCache s'))))"
  using translateText_hit[of s req item env] translateText_keeps_entries[of s' k e env' req' r s1 calls]
  by blast

theorem cache_entries_never_expire_witness:
  "isInitialized agedService \<and> enableCache (advanced (settings agedService))
   \<and> cacheExpiry (advanced (settings agedService)) = 86400000
   \<and> ci_timestamp helloItem = 0 \<and> env_now env0 = 1700000000000
   \<and> translateText env0 agedService helloRequest
       = (createResponseFromCache env0 helloItem, agedService, [])
   \<and> map_of (translationCache agedService) ''236a6927'' = Some helloItem
   \<and> map_of (translationCache (fst (snd (translateText env0 agedService worldRequest))))
         ''236a6927'' = Some helloItem"
proof -
  have a: "isInitialized agedService" "enableCache (advanced (settings agedService))"
    "cacheExpiry (advanced (settings agedService)) = 86400000"
    "ci_timestamp helloItem = 0" "env_now env0 = 1700000000000"
    by (simp_all add: agedService_def stubService_def DEFAULT_CONFIG_def helloItem_def env0_def)
  have b: "getCachedTranslation agedService (req_text helloRequest)
              (js_or (req_sourceLang helloRequest) AUTO) (req_targetLang helloRequest)
              (js_or (req_translator helloRequest) (defaultTranslator (settings agedService)))
            = Some helloItem"
    using hello_hash
    by (simp add: getCachedTranslation_def helloRequest_def js_or_def agedService_def)
  have c: "map_of (translationCache agedService) ''236a6927'' = Some helloItem"
    "length (translationCache agedService) = 1"
    by (simp_all add: agedService_def)
  obtain r s1 calls where tt: "translateText env0 agedService worldRequest = (r, s1, calls)"
    by (cases "translateText env0 agedService worldRequest")
  note inst = cache_entries_never_expire[of agedService helloRequest helloItem env0
      agedService "''236a6927''" helloItem env0 worldRequest r s1 calls]
  have d: "translateText env0 agedService helloRequest
             = (createResponseFromCache env0 helloItem, agedService, [])"
    using inst a(1,2) b by blast
  have e: "map_of (translationCache s1) ''236a6927'' = Some helloItem"
    using inst c tt by simp
  show ?thesis using a c(1) d e tt by simp
qed

section \<open>The caching flag and the history\<close>

lemma translateText_try_cache_disabled:
  assumes "\<not> enableCache (advanced (settings s))"
  shows "translateText_try env (s\<lparr> translationCache := c \<rparr>) req
         = (case translateText_try env s req of
              (res, s1, calls) \<Rightarrow> (res, s1\<lparr> translationCache := c \<rparr>, calls))"
  using assms
  by (simp add: translateText_try_def Let_def addToHistory_def
      split: option.splits sum.splits prod.splits)

lemma translateText_cache_disabled:
  assumes "\<not> enableCache (advanced (settings s))"
  shows "translateText env (s\<lparr> translationCache := c \<rparr>) req
         = (case translateText env s req of
              (r, s1, calls) \<Rightarrow> (r, s1\<lparr> translationCache := c \<rparr>, calls))"
  unfolding translateText_def translateText_try_cache_disabled[OF assms]
  by (simp split: prod.splits sum.splits)

lemma translateText_cache_untouched:
  assumes "\<not> enableCache (advanced (settings s))"
  shows "translationCache (fst (snd (translateText env s req))) = translationCache s"
proof -
  obtain r s1 calls where tt: "translateText env s req = (r, s1, calls)"
    by (cases "translateText env s req")
  obtain res where try1: "translateText_try env s req = (res, s1, calls)"
    using tt by (auto simp: translateText_def split: prod.splits sum.splits)
  from try1 have "translationCache s1 = translationCache s"
    by (cases rule: translateText_try_cases) (use assms in \<open>simp_all add: addToHistory_frame\<close>)
  then show ?thesis using tt by simp
qed

lemma translateText_history_appended:
  assumes tt: "translateText env s req = (r, s1, calls)"
    and ok: "status r = success" and reached: "calls \<noteq> []"
  shows "translationHistory s1
         = (let h1 = translationHistory s
                  @ [\<lparr> h_id = env_uuid env, h_originalText = originalText r,
                        h_translatedText = translatedText r, h_sourceLang = sourceLang r,
                        h_targetLang = targetLang r,
                        h_translator = js_or (req_translator req) (defaultTranslator (settings s)),
                        h_timestamp = timestamp r \<rparr>]
            in if length h1 > 1000 then drop (length h1 - 1000) h1 else h1)"
  using tt ok
proof (cases rule: translateText_success_cases)
  case (hit cacheItem)
  then show ?thesis using reached by simp
next
  case (translated f1)
  show ?thesis
    unfolding translated(6)
    by (simp add: addToHistory_def Let_def cacheTranslation_frame)
qed

lemma quiet_call:
  "fst (translateText env0 quietService helloRequest)
    = \<lparr> originalText = js ''Hello'', translatedText = [0x4F60, 0x597D],
            sourceLang = ''auto'', targetLang = ''zh-CN'', translator = ''openai'',
            status = success, err = None, timestamp = 1700000000000 \<rparr>"
  "snd (snd (translateText env0 quietService helloRequest)) = [(js ''Hello'', ''auto'', ''zh-CN'')]"
  "translationHistory (fst (snd (translateText env0 quietService helloRequest)))
    = [\<lparr> h_id = ''00000000-0000-4000-8000-000000000000'', h_originalText = js ''Hello'',
         h_translatedText = [0x4F60, 0x597D], h_sourceLang = ''auto'', h_targetLang = ''zh-CN'',
         h_translator = ''openai'', h_timestamp = 1700000000000 \<rparr>]"
  "translationCache (fst (snd (translateText env0 quietService helloRequest))) = []"
  using hello_text(1)
  by (simp_all add: translateText_def translateText_try_def quietService_def stubService_def
      helloRequest_def DEFAULT_CONFIG_def js_or_def AUTO_def stub_create stub_translate_hello
      env0_def addToHistory_def Let_def)

text \<open>
  Claim C9, as stated, fails. The settings have no flag for the history: their flags are
  \<open>advanced.enableCache\<close> and \<open>advanced.enableLogging\<close>, and \<open>translateText\<close> calls
  \<open>addToHistory\<close> without a condition. With both flags off, a successful call on an empty
  history leaves one entry.
\<close>

theorem history_flag_counterexample:
  "\<not> enableCache (advanced (settings quietService))
   \<and> \<not> enableLogging (advanced (settings quietService))
   \<and> status (fst (translateText env0 quietService helloRequest)) = success
   \<and> translationHistory quietService = []
   \<and> translationHistory (fst (snd (translateText env0 quietService helloRequest)))
       \<noteq> translationHistory quietService"
  by (simp add: quiet_call) (simp add: quietService_def stubService_def)

text \<open>
  Claim C9, amended. Caching in \<open>translateText\<close> is governed by the flag
  \<open>advanced.enableCache\<close>, which is on in the default settings: with the flag off the call
  does not write the cache and does not read it (the response and the calls made are the
  same for every content of the cache). The history has no flag: every call that returns
  a successful response obtained from the translator appends one entry to the history,
  which keeps its last 1000 entries.
\<close>

theorem cache_flag_and_history:
  "enableCache (advanced DEFAULT_CONFIG)
   \<and> (\<not> enableCache (advanced (settings s))
      \<longrightarrow> translationCache (fst (snd (translateText env s req))) = translationCache s
          \<and> fst (translateText env (s\<lparr> translationCache := c \<rparr>) req)
              = fst (translateText env s req)
          \<and> snd (snd (translateText env (s\<lparr> translationCache := c \<rparr>) req))
              = snd (snd (translateText env s req)))
   \<and> (translateText env s req = (r, s1, calls) \<and> status r = success \<and> calls \<noteq> []
      \<longrightarrow> translationHistory s1
          = (let h1 = translationHistory s
                   @ [\<lparr> h_id = env_uuid env, h_originalText = originalText r,
                         h_translatedText = translatedText r, h_sourceLang = sourceLang r,
                         h_targetLang = targetLang r,
                         h_translator = js_or (req_translator req) (defaultTranslator (settings s)),
                         h_timestamp = timestamp r \<rparr>]
             in if length h1 > 1000 then drop (length h1 - 1000) h1 else h1))"
proof (intro conjI impI)
  show "enableCache (advanced DEFAULT_CONFIG)" by (simp add: DEFAULT_CONFIG_def)
next
  assume off: "\<not> enableCache (advanced (settings s))"
  show "translationCache (fst (snd (translateText env s req))) = translationCache s"
    using off by (rule translateText_cache_untouched)
  show "fst (translateText env (s\<lparr> translationCache := c \<rparr>) req) = fst (translateText env s req)"
    by (simp add: translateText_cache_disabled[OF off] split: prod.splits)
  show "snd (snd (translateText env (s\<lparr> translationCache := c \<rparr>) req))
          = snd (snd (translateText env s req))"
    by (simp add: translateText_cache_disabled[OF off] split: prod.splits)
next
  assume "translateText env s req = (r, s1, calls) \<and> status r = success \<and> calls \<noteq> []"
  then show "translationHistory s1
          = (let h1 = translationHistory s
                   @ [\<lparr> h_id = env_uuid env, h_originalText = originalText r,
                         h_translatedText = translatedText r, h_sourceLang = sourceLang r,
                         h_targetLang = targetLang r,
                         h_translator = js_or (req_translator req) (defaultTranslator (settings s)),
                         h_timestamp = timestamp r \<rparr>]
             in if length h1 > 1000 then drop (length h1 - 1000) h1 else h1)"
    using translateText_history_appended[of env s req r s1 calls] by blast
qed

theorem cache_flag_and_history_witness:
  "\<not> enableCache (advanced (settings quietService))
   \<and> translationCache (fst (snd (translateText env0 quietService helloRequest)))
       = translationCache quietService
   \<and> fst (translateText env0 (quietService\<lparr> translationCache := [(''236a6927'', helloItem)] \<rparr>)
            helloRequest)
       = fst (translateText env0 quietService helloRequest)
   \<and> snd (snd (translateText env0
                   (quietService\<lparr> translationCache := [(''236a6927'', helloItem)] \<rparr>) helloRequest))
       = [(js ''Hello'', ''auto'', ''zh-CN'')]
   \<and> status (fst (translateText env0 quietService helloRequest)) = success
   \<and> translationHistory (fst (snd (translateText env0 quietService helloRequest)))
       = [\<lparr> h_id = ''00000000-0000-4000-8000-000000000000'', h_originalText = js ''Hello'',
            h_translatedText = [0x4F60, 0x597D], h_sourceLang = ''auto'', h_targetLang = ''zh-CN'',
            h_translator = ''openai'', h_timestamp = 1700000000000 \<rparr>]"
proof -
  have off: "\<not> enableCache (advanced (settings quietService))"
    "translationHistory quietService = []" "defaultTranslator (settings quietService) = ''openai''"
    by (simp_all add: quietService_def stubService_def DEFAULT_CONFIG_def)
  obtain r s1 calls where tt: "translateText env0 quietService helloRequest = (r, s1, calls)"
    by (cases "translateText env0 quietService helloRequest")
  have r: "r = \<lparr> originalText = js ''Hello'', translatedText = [0x4F60, 0x597D],
            sourceLang = ''auto'', targetLang = ''zh-CN'', translator = ''openai'',
            status = success, err = None, timestamp = 1700000000000 \<rparr>"
    and calls: "calls = [(js ''Hello'', ''auto'', ''zh-CN'')]"
    using quiet_call(1,2) tt by simp_all
  note inst = cache_flag_and_history[of quietService env0 helloRequest
      "[(''236a6927'', helloItem)]" r s1 calls]
  have a: "translationCache (fst (snd (translateText env0 quietService helloRequest)))
             = translationCache quietService"
    "fst (translateText env0 (quietService\<lparr> translationCache := [(''236a6927'', helloItem)] \<rparr>)
            helloRequest)
       = fst (translateText env0 quietService helloRequest)"
    "snd (snd (translateText env0
                   (quietService\<lparr> translationCache := [(''236a6927'', helloItem)] \<rparr>) helloRequest))
       = snd (snd (translateText env0 quietService helloRequest))"
    using inst off(1) by blast+
  have b: "translationHistory s1
       = [\<lparr> h_id = ''00000000-0000-4000-8000-000000000000'', h_originalText = js ''Hello'',
            h_translatedText = [0x4F60, 0x597D], h_sourceLang = ''auto'', h_targetLang = ''zh-CN'',
            h_translator = ''openai'', h_timestamp = 1700000000000 \<rparr>]"
    using inst tt off(2,3)
    by (simp add: r calls helloRequest_def js_or_def env0_def Let_def)
  show ?thesis using off(1) a b tt r calls by simp
qed

section \<open>Failures: the error response and the configuration check\<close>

lemma translateText_failure_response:
  assumes "translateText_try env s req = (Inl e, s1, calls)"
  shows "translateText env s req
         = (\<lparr> originalText = req_text req, translatedText = [],
              sourceLang = js_or (req_sourceLang req) AUTO, targetLang = req_targetLang req,
              translator = js_or (req_translator req) (defaultTranslator (settings s1)),
              status = error, err = Some (message_of e), timestamp = env_now env \<rparr>, s1, calls)"
  using assms by (simp add: translateText_def)

lemma api_key_code:
  "getErrorCode ''Invalid OpenAI API key. Please check your configuration.'' = ''INVALID_API_KEY''"
  by code_simp

lemma failing_create:
  "createTranslatorAsync env (translatorFactory failingService) ''openai'' cfg []
   = (Inr \<lparr> t_adapter = failingAdapter, t_config = cfg, t_isInitialized = True \<rparr>,
      (translatorFactory failingService)\<lparr> f_instances := [(generateInstanceId env ''openai'',
          \<lparr> t_adapter = failingAdapter, t_config = cfg, t_isInitialized = True \<rparr>)] \<rparr>)"
  by (simp add: createTranslatorAsync_def failingService_def registerTranslatorFull_def
      object_truthy_def js_or_def initialize_def construct_def failingAdapter_def stubAdapter_def
      Let_def)

lemma failing_translate_hello:
  "translate \<lparr> t_adapter = failingAdapter, t_config = cfg, t_isInitialized = True \<rparr> now
     \<lparr> req_text = js ''Hello'', req_sourceLang = ''auto'', req_targetLang = ''zh-CN'',
       req_translator = ''openai'', req_maxTokens = mt \<rparr>
   = (Inl (ErrorObject
        \<lparr> te_code = ''INVALID_API_KEY'',
          te_message = ''Invalid OpenAI API key. Please check your configuration.'',
          te_timestamp = now, te_translatorType = ''openai'', te_originalText = js ''Hello'',
          te_sourceLanguage = ''auto'', te_targetLanguage = ''zh-CN'' \<rparr>),
      [(js ''Hello'', ''auto'', ''zh-CN'')])"
  using hello_text api_key_code
  by (simp add: translate_def validateRequest_def validateLanguageCode_def
      LanguageCode_values_def failingAdapter_def stubAdapter_def createTranslationError_def Let_def)

text \<open>
  Claim C3 fails on the code where the backend call fails: the translator base class throws
  a plain \<open>TranslationError\<close> object, \<open>translateText\<close> reads the message only from
  instances of \<open>Error\<close>, and the response carries \<open>Unknown error\<close> in place of the failure
  message. Here the provider rejects the API key: \<open>translate\<close> throws an object with that
  message, and the response of \<open>translateText\<close> has status \<open>error\<close>, echoes the request,
  and has lost the message.
\<close>

theorem translateText_loses_backend_message:
  "fst (translate \<lparr> t_adapter = failingAdapter, t_config = openaiConfig, t_isInitialized = True \<rparr>
          1700000000000 helloRequest)
     = Inl (ErrorObject
        \<lparr> te_code = ''INVALID_API_KEY'',
          te_message = ''Invalid OpenAI API key. Please check your configuration.'',
          te_timestamp = 1700000000000, te_translatorType = ''openai'',
          te_originalText = js ''Hello'', te_sourceLanguage = ''auto'',
          te_targetLanguage = ''zh-CN'' \<rparr>)
   \<and> fst (translateText env0 failingService helloRequest)
     = \<lparr> originalText = js ''Hello'', translatedText = [], sourceLang = ''auto'',
         targetLang = ''zh-CN'', translator = ''openai'', status = error,
         err = Some ''Unknown error'', timestamp = 1700000000000 \<rparr>"
proof -
  have "isInitialized failingService" "settings failingService = DEFAULT_CONFIG"
    "translationCache failingService = []"
    by (simp_all add: failingService_def stubService_def)
  then have "fst (translateText env0 failingService helloRequest)
     = \<lparr> originalText = js ''Hello'', translatedText = [], sourceLang = ''auto'',
         targetLang = ''zh-CN'', translator = ''openai'', status = error,
         err = Some ''Unknown error'', timestamp = 1700000000000 \<rparr>"
    using hello_text(1)
    by (simp add: translateText_def translateText_try_def helloRequest_def DEFAULT_CONFIG_def
        getCachedTranslation_def js_or_def AUTO_def failing_create failing_translate_hello
        env0_def Let_def)
  then show ?thesis
    by (simp add: failing_translate_hello helloRequest_def)
qed

lemma bad_key: "\<not> validateApiKey ''bad'' ''openai''"
  by code_simp

text \<open>
  Claim C6 fails on the code where the configuration does not pass the validator:
  \<open>validateConfig\<close> returns an object, the factory tests \<open>!validateConfig(...)\<close>, and an object
  is never falsy, so the \<open>Invalid translator configuration\<close> branch is never taken. Here
  the validator reports two missing fields and a malformed API key, and the factory
  constructs, initializes, stores and returns the instance all the same. (An unregistered
  type is refused as the claim says.)
\<close>

theorem createTranslatorAsync_ignores_validator:
  "validateConfig (with_translatorType badKeyConfig ''openai'')
     = \<lparr> valid = False,
         errors = [MissingField ''sourceLanguage'', MissingField ''targetLanguage'',
                   InvalidApiKeyFormat] \<rparr>
   \<and> createTranslatorAsync env0 stubFactory ''openai'' badKeyConfig []
     = (Inr \<lparr> t_adapter = stubAdapter, t_config = badKeyConfig, t_isInitialized = True \<rparr>,
        stubFactory\<lparr> f_instances := [(''openai_1700000000000_abcde'',
          \<lparr> t_adapter = stubAdapter, t_config = badKeyConfig, t_isInitialized = True \<rparr>)] \<rparr>)
   \<and> createTranslatorAsync env0 stubFactory ''custom'' badKeyConfig []
     = (Inl (Error ''Translator type custom is not registered''), stubFactory)"
proof -
  have v: "validateConfig (with_translatorType badKeyConfig ''openai'')
     = \<lparr> valid = False,
         errors = [MissingField ''sourceLanguage'', MissingField ''targetLanguage'',
                   InvalidApiKeyFormat] \<rparr>"
    using bad_key
    by (simp add: validateConfig_def with_translatorType_def badKeyConfig_def openaiConfig_def
        TranslatorConfig.extend_def ConfigObject.fields_def truthy_def TranslatorType_values_def
        Let_def)
  have i: "generateInstanceId env0 ''openai'' = ''openai_1700000000000_abcde''"
    by (simp add: generateInstanceId_def env0_def toString10_def digits10.simps)
  have u: "createTranslatorAsync env0 stubFactory ''custom'' badKeyConfig []
     = (Inl (Error ''Translator type custom is not registered''), stubFactory)"
    by (simp add: createTranslatorAsync_def stubFactory_def registerTranslatorFull_def)
  show ?thesis using v u by (simp add: stub_create i)
qed

section \<open>Batch tasks: cancellation\<close>

lemma modifyTask_lookup:
  "map_of (batchTasks s) taskId = Some task
     \<Longrightarrow> map_of (batchTasks (modifyTask s taskId g)) taskId = Some (g task)"
  by (simp add: modifyTask_def update_conv')

lemma modifyTask_frame:
  "settings (modifyTask s taskId g) = settings s"
  "translatorFactory (modifyTask s taskId g) = translatorFactory s"
  "translationCache (modifyTask s taskId g) = translationCache s"
  "translationHistory (modifyTask s taskId g) = translationHistory s"
  "isInitialized (modifyTask s taskId g) = isInitialized s"
  by (simp_all add: modifyTask_def split: option.splits)

lemma world_text:
  "validateText (js ''World'')"
  "preprocessText (js ''World'') = js ''World''"
  "js ''World'' \<noteq> []"
  by code_simp+

lemma stub_translate_world:
  "translate \<lparr> t_adapter = stubAdapter, t_config = cfg, t_isInitialized = True \<rparr> now
     \<lparr> req_text = js ''World'', req_sourceLang = ''auto'', req_targetLang = ''zh-CN'',
       req_translator = ''openai'', req_maxTokens = mt \<rparr>
   = (Inr \<lparr> originalText = js ''World'', translatedText = [0x4F60, 0x597D],
            sourceLang = ''auto'', targetLang = ''zh-CN'', translator = ''openai'',
            status = success, err = None, timestamp = now \<rparr>,
      [(js ''World'', ''auto'', ''zh-CN'')])"
  using world_text hello_text(4)
  by (simp add: translate_def validateRequest_def validateLanguageCode_def
      LanguageCode_values_def stubAdapter_def Let_def)

lemma twoChunks_started:
  "fst twoChunks = ''00000000-0000-4000-8000-000000000000''"
  "bx_taskId (snd (snd twoChunks)) = ''00000000-0000-4000-8000-000000000000''"
  "bx_pc (snd (snd twoChunks))
     = AwaitCreate (Inr \<lparr> t_adapter = stubAdapter, t_config = openaiConfig, t_isInitialized = True \<rparr>)"
  "bx_calls (snd (snd twoChunks)) = []"
  "batchTasks (fst (snd twoChunks))
     = [(''00000000-0000-4000-8000-000000000000'',
         \<lparr> task_id = ''00000000-0000-4000-8000-000000000000'',
           task_texts = [js ''Hello'', js ''World''], task_from = ''auto'', task_to = ''zh-CN'',
           task_translator = ''openai'', task_progress = 0, task_status = running,
           task_results = [], task_errors = [], task_startTime = Some 1700000000000,
           task_endTime = None \<rparr>)]"
  by (simp_all add: twoChunks_def startBatchTranslation_def executeBatchTranslation_def
      stubService_def DEFAULT_CONFIG_def modifyTask_def stub_create env0_def Let_def
      openaiConfig_def)

lemma twoChunks_issued:
  "batchTasks (fst (runBatch (snd twoChunks) [Resume env1])) = batchTasks (fst (snd twoChunks))"
  "snd (runBatch (snd twoChunks) [Resume env1])
     = \<lparr> bx_taskId = ''00000000-0000-4000-8000-000000000000'',
         bx_pc = AwaitTranslate 0
           \<lparr> t_adapter = stubAdapter, t_config = openaiConfig, t_isInitialized = True \<rparr>
           (Inr \<lparr> originalText = js ''Hello'', translatedText = [0x4F60, 0x597D],
                  sourceLang = ''auto'', targetLang = ''zh-CN'', translator = ''openai'',
                  status = success, err = None, timestamp = 1700000005000 \<rparr>),
         bx_calls = [(js ''Hello'', ''auto'', ''zh-CN'')] \<rparr>"
  by (simp_all add: runBatch_def resumeBatch_def batchLoop_def split_beta twoChunks_started
      stub_translate_hello env1_def)

lemma runBatch_snoc: "runBatch sb (evs @ [ev]) = batchEvent (runBatch sb evs) ev"
  by (simp add: runBatch_def)

lemma twoChunks_cancelled:
  "batchTasks (fst (runBatch (snd twoChunks) [Resume env1, Cancel]))
     = [(''00000000-0000-4000-8000-000000000000'',
         \<lparr> task_id = ''00000000-0000-4000-8000-000000000000'',
           task_texts = [js ''Hello'', js ''World''], task_from = ''auto'', task_to = ''zh-CN'',
           task_translator = ''openai'', task_progress = 0, task_status = failed,
           task_results = [], task_errors = [''Translation cancelled by user''],
           task_startTime = Some 1700000000000, task_endTime = None \<rparr>)]"
  "snd (runBatch (snd twoChunks) [Resume env1, Cancel])
     = snd (runBatch (snd twoChunks) [Resume env1])"
  using runBatch_snoc[of "snd twoChunks" "[Resume env1]" Cancel]
  by (simp_all add: cancelBatchTranslation_def modifyTask_def twoChunks_issued twoChunks_started)

lemma twoChunks_resumed:
  "batchTasks (fst (runBatch (snd twoChunks) [Resume env1, Cancel, Resume env2]))
     = [(''00000000-0000-4000-8000-000000000000'',
         \<lparr> task_id = ''00000000-0000-4000-8000-000000000000'',
           task_texts = [js ''Hello'', js ''World''], task_from = ''auto'', task_to = ''zh-CN'',
           task_translator = ''openai'', task_progress = 50, task_status = completed,
           task_results =
             [\<lparr> originalText = js ''Hello'', translatedText = [0x4F60, 0x597D],
                 sourceLang = ''auto'', targetLang = ''zh-CN'', translator = ''openai'',
                 status = success, err = None, timestamp = 1700000005000 \<rparr>],
           task_errors = [''Translation cancelled by user''],
           task_startTime = Some 1700000000000, task_endTime = Some 1700000009000 \<rparr>)]"
  "snd (runBatch (snd twoChunks) [Resume env1, Cancel, Resume env2])
     = \<lparr> bx_taskId = ''00000000-0000-4000-8000-000000000000'', bx_pc = Settled None,
         bx_calls = [(js ''Hello'', ''auto'', ''zh-CN'')] \<rparr>"
  using runBatch_snoc[of "snd twoChunks" "[Resume env1, Cancel]" "Resume env2"]
  by (simp_all add: resumeBatch_def batchLoop_def recordChunk_def modifyTask_def split_beta
      twoChunks_cancelled twoChunks_issued env2_def)

lemma recordChunk_frame:
  "task_status (recordChunk env i outcome task) = task_status task"
  "task_texts (recordChunk env i outcome task) = task_texts task"
  "task_from (recordChunk env i outcome task) = task_from task"
  "task_to (recordChunk env i outcome task) = task_to task"
  "task_translator (recordChunk env i outcome task) = task_translator task"
  by (simp_all add: recordChunk_def split: sum.splits)

lemma resume_after_cancel:
  assumes "bx_pc bx = AwaitTranslate i translatorInstance outcome"
    and "map_of (batchTasks s) (bx_taskId bx) = Some task"
    and "task_status task = failed"
  shows "bx_calls (snd (resumeBatch env (s, bx))) = bx_calls bx"
    and "bx_pc (snd (resumeBatch env (s, bx))) = Settled None"
    and "map_option task_status
           (map_of (batchTasks (fst (resumeBatch env (s, bx)))) (bx_taskId bx)) = Some completed"
  using assms
  by (simp_all add: resumeBatch_def batchLoop_def modifyTask_lookup recordChunk_frame)

text \<open>
  Claim C1 fails on the code after the cancellation: the loop of \<open>executeBatchTranslation\<close>
  leaves at its next head because the status is no longer \<open>running\<close>, and the statement
  after the loop then sets the status to \<open>completed\<close> without a condition. Here a task of
  two chunks is cancelled while the call of its first chunk is in flight: the cancellation
  makes the task \<open>failed\<close> with the message appended, the execution makes no further call
  of the backend, and when it continues the task, which was \<open>failed\<close>, becomes \<open>completed\<close>.
\<close>

theorem cancelled_task_becomes_completed:
  "map_option task_status
       (map_of (batchTasks (fst (runBatch (snd twoChunks) [Resume env1]))) (fst twoChunks))
     = Some running
   \<and> map_option (\<lambda>task. (task_status task, task_errors task))
       (map_of (batchTasks (fst (runBatch (snd twoChunks) [Resume env1, Cancel]))) (fst twoChunks))
     = Some (failed, [''Translation cancelled by user''])
   \<and> map_option (\<lambda>task. (task_status task, task_errors task, length (task_results task)))
       (map_of (batchTasks (fst (runBatch (snd twoChunks) [Resume env1, Cancel, Resume env2])))
          (fst twoChunks))
     = Some (completed, [''Translation cancelled by user''], 1)
   \<and> bx_pc (snd (runBatch (snd twoChunks) [Resume env1, Cancel, Resume env2])) = Settled None
   \<and> bx_calls (snd (runBatch (snd twoChunks) [Resume env1, Cancel, Resume env2]))
     = [(js ''Hello'', ''auto'', ''zh-CN'')]"
  by (simp add: twoChunks_issued twoChunks_cancelled twoChunks_resumed twoChunks_started)

section \<open>Batch tasks: index alignment\<close>

lemma recordChunk_recorded:
  assumes "batchRecorded inst envs texts src tgt ty st j task"
  shows "batchRecorded inst envs texts src tgt ty st (Suc j)
           (recordChunk (envs ! Suc j) j (chunkOutcome inst envs texts src tgt ty j) task)"
proof (cases "chunkOutcome inst envs texts src tgt ty j")
  case (Inl e)
  then show ?thesis
    using assms
    by (simp add: batchRecorded_def recordChunk_def chunkResult_def chunkErrors_def)
next
  case (Inr response)
  obtain calls where "translate inst (env_now (envs ! j)) (chunkRequest texts src tgt ty j)
                        = (Inr response, calls)"
    using Inr by (cases "translate inst (env_now (envs ! j)) (chunkRequest texts src tgt ty j)")
      (simp add: chunkOutcome_def)
  then have "status response = success" by (rule translate_Inr(1))
  then show ?thesis
    using assms Inr
    by (simp add: batchRecorded_def recordChunk_def chunkResult_def chunkErrors_def)
qed

lemma batchLoop_issue:
  assumes "map_of (batchTasks s) (bx_taskId bx) = Some task"
    and "batchRecorded inst envs texts src tgt ty running j task"
    and "j < length texts"
  shows "batchLoop (envs ! j) s bx inst j
         = (s, bx\<lparr> bx_pc := AwaitTranslate j inst (chunkOutcome inst envs texts src tgt ty j),
                    bx_calls := bx_calls bx
                      @ snd (translate inst (env_now (envs ! j)) (chunkRequest texts src tgt ty j)) \<rparr>)"
  using assms
  by (simp add: batchLoop_def batchRecorded_def chunkOutcome_def chunkRequest_def split_beta)

lemma batchLoop_finish:
  assumes "map_of (batchTasks s) (bx_taskId bx) = Some task"
    and "batchRecorded inst envs texts src tgt ty running (length texts) task"
  shows "batchDone inst envs texts src tgt ty (bx_taskId bx) (batchLoop e s bx inst (length texts))"
  using assms
  by (simp add: batchLoop_def batchDone_def batchRecorded_def modifyTask_lookup)

lemma resume_waiting_step:
  assumes w: "batchWaiting inst envs texts src tgt ty taskId j sb" and lt: "Suc j < length texts"
  shows "batchWaiting inst envs texts src tgt ty taskId (Suc j) (resumeBatch (envs ! Suc j) sb)"
proof -
  obtain s bx where sb: "sb = (s, bx)" by (cases sb)
  obtain task where t: "bx_taskId bx = taskId"
      "bx_pc bx = AwaitTranslate j inst (chunkOutcome inst envs texts src tgt ty j)"
      "map_of (batchTasks s) taskId = Some task"
      "batchRecorded inst envs texts src tgt ty running j task"
    using w sb by (auto simp: batchWaiting_def)
  let ?s' = "modifyTask s taskId
               (recordChunk (envs ! Suc j) j (chunkOutcome inst envs texts src tgt ty j))"
  let ?task' = "recordChunk (envs ! Suc j) j (chunkOutcome inst envs texts src tgt ty j) task"
  have look: "map_of (batchTasks ?s') (bx_taskId bx) = Some ?task'"
    using t(1,3) by (simp add: modifyTask_lookup)
  have rec: "batchRecorded inst envs texts src tgt ty running (Suc j) ?task'"
    using t(4) by (rule recordChunk_recorded)
  have "resumeBatch (envs ! Suc j) sb = batchLoop (envs ! Suc j) ?s' bx inst (Suc j)"
    using sb t(1,2) by (simp add: resumeBatch_def)
  also have "\<dots> = (?s', bx\<lparr> bx_pc := AwaitTranslate (Suc j) inst
                                  (chunkOutcome inst envs texts src tgt ty (Suc j)),
                    bx_calls := bx_calls bx
                      @ snd (translate inst (env_now (envs ! Suc j))
                               (chunkRequest texts src tgt ty (Suc j))) \<rparr>)"
    using batchLoop_issue[OF look rec lt] .
  finally show ?thesis
    using look rec t(1) by (auto simp: batchWaiting_def)
qed

lemma resume_waiting_last:
  assumes w: "batchWaiting inst envs texts src tgt ty taskId j sb" and last: "Suc j = length texts"
  shows "batchDone inst envs texts src tgt ty taskId (resumeBatch (envs ! Suc j) sb)"
proof -
  obtain s bx where sb: "sb = (s, bx)" by (cases sb)
  obtain task where t: "bx_taskId bx = taskId"
      "bx_pc bx = AwaitTranslate j inst (chunkOutcome inst envs texts src tgt ty j)"
      "map_of (batchTasks s) taskId = Some task"
      "batchRecorded inst envs texts src tgt ty running j task"
    using w sb by (auto simp: batchWaiting_def)
  let ?s' = "modifyTask s taskId
               (recordChunk (envs ! Suc j) j (chunkOutcome inst envs texts src tgt ty j))"
  let ?task' = "recordChunk (envs ! Suc j) j (chunkOutcome inst envs texts src tgt ty j) task"
  have look: "map_of (batchTasks ?s') (bx_taskId bx) = Some ?task'"
    using t(1,3) by (simp add: modifyTask_lookup)
  have rec: "batchRecorded inst envs texts src tgt ty running (length texts) ?task'"
    using recordChunk_recorded[OF t(4)] last by simp
  have "resumeBatch (envs ! Suc j) sb = batchLoop (envs ! Suc j) ?s' bx inst (length texts)"
    using sb t(1,2) last by (simp add: resumeBatch_def)
  then show ?thesis
    using batchLoop_finish[OF look rec, of "envs ! Suc j"] t(1) by simp
qed

lemma start_state:
  assumes start: "startBatchTranslation env s texts src tgt ty = (taskId, s0, bx0)"
    and cfg: "map_of (translators (settings s)) ty = Some translatorConfig"
    and created: "fst (createTranslatorAsync env (translatorFactory s) ty translatorConfig [])
                    = Inr inst"
  shows "bx_taskId bx0 = taskId" "bx_pc bx0 = AwaitCreate (Inr inst)"
    "\<exists>task. map_of (batchTasks s0) taskId = Some task
            \<and> batchRecorded inst envs texts src tgt ty running 0 task"
proof -
  let ?task = "\<lparr> task_id = env_uuid env, task_texts = texts, task_from = src, task_to = tgt,
                   task_translator = ty, task_progress = 0,
                   task_status = task_pending, task_results = [], task_errors = [],
                   task_startTime = None, task_endTime = None \<rparr>"
  let ?sa = "s\<lparr> batchTasks := AList.update (env_uuid env) ?task (batchTasks s) \<rparr>"
  have la: "map_of (batchTasks ?sa) (env_uuid env) = Some ?task"
    by (simp add: update_conv')
  let ?sb = "modifyTask ?sa (env_uuid env)
               (\<lambda>task. task\<lparr> task_status := running, task_startTime := Some (env_now env) \<rparr>)"
  have lb: "map_of (batchTasks ?sb) (env_uuid env)
              = Some (?task\<lparr> task_status := running, task_startTime := Some (env_now env) \<rparr>)"
    using la by (rule modifyTask_lookup)
  obtain f1 where cr: "createTranslatorAsync env (translatorFactory s) ty translatorConfig []
                         = (Inr inst, f1)"
    using created by (cases "createTranslatorAsync env (translatorFactory s) ty translatorConfig []")
      simp
  have ex: "executeBatchTranslation env ?sa (env_uuid env)
              = (?sb\<lparr> translatorFactory := f1 \<rparr>,
                 \<lparr> bx_taskId = env_uuid env, bx_pc = AwaitCreate (Inr inst), bx_calls = [] \<rparr>)"
    using la cfg cr
    by (simp add: executeBatchTranslation_def Let_def modifyTask_frame)
  have eq: "taskId = env_uuid env" "s0 = ?sb\<lparr> translatorFactory := f1 \<rparr>"
    "bx0 = \<lparr> bx_taskId = env_uuid env, bx_pc = AwaitCreate (Inr inst), bx_calls = [] \<rparr>"
    using start ex by (auto simp: startBatchTranslation_def Let_def)
  show "bx_taskId bx0 = taskId" "bx_pc bx0 = AwaitCreate (Inr inst)"
    using eq by simp_all
  show "\<exists>task. map_of (batchTasks s0) taskId = Some task
            \<and> batchRecorded inst envs texts src tgt ty running 0 task"
    using lb eq by (simp add: batchRecorded_def)
qed

lemma run_waiting:
  assumes "bx_taskId bx0 = taskId" "bx_pc bx0 = AwaitCreate (Inr inst)"
    and "\<exists>task. map_of (batchTasks s0) taskId = Some task
            \<and> batchRecorded inst envs texts src tgt ty running 0 task"
    and "length envs = Suc (length texts)" and "j < length texts"
  shows "batchWaiting inst envs texts src tgt ty taskId j
           (runBatch (s0, bx0) (map Resume (take (Suc j) envs)))"
  using assms(5)
proof (induction j)
  case 0
  obtain task where t: "map_of (batchTasks s0) (bx_taskId bx0) = Some task"
      "batchRecorded inst envs texts src tgt ty running 0 task"
    using assms(1,3) by auto
  have "take (Suc 0) envs = [envs ! 0]"
    using assms(4) by (cases envs) simp_all
  then have "runBatch (s0, bx0) (map Resume (take (Suc 0) envs))
             = batchLoop (envs ! 0) s0 bx0 inst 0"
    using assms(2) by (simp add: runBatch_def resumeBatch_def)
  then show ?case
    using batchLoop_issue[OF t 0] t assms(1) by (auto simp: batchWaiting_def)
next
  case (Suc j)
  then have w: "batchWaiting inst envs texts src tgt ty taskId j
                  (runBatch (s0, bx0) (map Resume (take (Suc j) envs)))"
    by simp
  have "take (Suc (Suc j)) envs = take (Suc j) envs @ [envs ! Suc j]"
    using Suc.prems assms(4) by (simp add: take_Suc_conv_app_nth)
  then have "runBatch (s0, bx0) (map Resume (take (Suc (Suc j)) envs))
             = resumeBatch (envs ! Suc j) (runBatch (s0, bx0) (map Resume (take (Suc j) envs)))"
    by (simp add: runBatch_snoc)
  then show ?case
    using resume_waiting_step[OF w Suc.prems] by simp
qed

lemma run_done:
  assumes "bx_taskId bx0 = taskId" "bx_pc bx0 = AwaitCreate (Inr inst)"
    and "\<exists>task. map_of (batchTasks s0) taskId = Some task
            \<and> batchRecorded inst envs texts src tgt ty running 0 task"
    and "length envs = Suc (length texts)"
  shows "batchDone inst envs texts src tgt ty taskId (runBatch (s0, bx0) (map Resume envs))"
proof (cases "length texts")
  case 0
  obtain task where t: "map_of (batchTasks s0) (bx_taskId bx0) = Some task"
      "batchRecorded inst envs texts src tgt ty running (length texts) task"
    using assms(1,3) 0 by auto
  obtain e0 where e0: "envs = [e0]"
    using assms(4) 0 by (cases envs) simp_all
  have "runBatch (s0, bx0) (map Resume envs) = resumeBatch (envs ! 0) (s0, bx0)"
    by (simp add: e0 runBatch_def)
  also have "\<dots> = batchLoop (envs ! 0) s0 bx0 inst (length texts)"
    using assms(2) 0 by (simp add: resumeBatch_def)
  finally show ?thesis
    using batchLoop_finish[OF t, of "envs ! 0"] assms(1) by simp
next
  case (Suc j)
  then have w: "batchWaiting inst envs texts src tgt ty taskId j
                  (runBatch (s0, bx0) (map Resume (take (Suc j) envs)))"
    using run_waiting[OF assms, of j] by simp
  have whole: "take (Suc (Suc j)) envs = envs"
    using assms(4) Suc by simp
  have "take (Suc (Suc j)) envs = take (Suc j) envs @ [envs ! Suc j]"
    by (rule take_Suc_conv_app_nth) (use assms(4) Suc in simp)
  then have "runBatch (s0, bx0) (map Resume (take (Suc (Suc j)) envs))
             = resumeBatch (envs ! Suc j) (runBatch (s0, bx0) (map Resume (take (Suc j) envs)))"
    by (simp only: map_append list.map runBatch_snoc batchEvent.simps)
  then have "runBatch (s0, bx0) (map Resume envs)
             = resumeBatch (envs ! Suc j) (runBatch (s0, bx0) (map Resume (take (Suc j) envs)))"
    by (simp only: whole)
  then show ?thesis
    using resume_waiting_last[OF w] Suc by simp
qed

lemma chunkResult_props:
  assumes "i < length texts"
  shows "originalText (chunkResult inst envs texts src tgt ty i) = texts ! i"
    and "status (chunkResult inst envs texts src tgt ty i)
         = (if isl (chunkOutcome inst envs texts src tgt ty i) then error else success)"
proof -
  show "originalText (chunkResult inst envs texts src tgt ty i) = texts ! i"
  proof (cases "chunkOutcome inst envs texts src tgt ty i")
    case (Inl e)
    then show ?thesis by (simp add: chunkResult_def)
  next
    case (Inr response)
    obtain calls where "translate inst (env_now (envs ! i)) (chunkRequest texts src tgt ty i)
                          = (Inr response, calls)"
      using Inr by (cases "translate inst (env_now (envs ! i)) (chunkRequest texts src tgt ty i)")
        (simp add: chunkOutcome_def)
    then have "originalText response = req_text (chunkRequest texts src tgt ty i)"
      by (rule translate_Inr(4))
    then show ?thesis using Inr by (simp add: chunkResult_def chunkRequest_def)
  qed
  show "status (chunkResult inst envs texts src tgt ty i)
         = (if isl (chunkOutcome inst envs texts src tgt ty i) then error else success)"
  proof (cases "chunkOutcome inst envs texts src tgt ty i")
    case (Inl e)
    then show ?thesis by (simp add: chunkResult_def)
  next
    case (Inr response)
    obtain calls where "translate inst (env_now (envs ! i)) (chunkRequest texts src tgt ty i)
                          = (Inr response, calls)"
      using Inr by (cases "translate inst (env_now (envs ! i)) (chunkRequest texts src tgt ty i)")
        (simp add: chunkOutcome_def)
    then have "status response = success" by (rule translate_Inr(1))
    then show ?thesis using Inr by (simp add: chunkResult_def)
  qed
qed

lemma chunkErrors_count:
  "length (concat (map (chunkErrors inst envs texts src tgt ty) xs))
   = length (filter (\<lambda>i. isl (chunkOutcome inst envs texts src tgt ty i)) xs)"
  by (induction xs) (auto simp: chunkErrors_def split: sum.splits)

lemma stub_translate_empty:
  "fst (translate \<lparr> t_adapter = stubAdapter, t_config = cfg, t_isInitialized = True \<rparr> now
     \<lparr> req_text = [], req_sourceLang = ''auto'', req_targetLang = ''zh-CN'',
       req_translator = ''openai'', req_maxTokens = mt \<rparr>)
   = Inl (createTranslationError \<lparr> t_adapter = stubAdapter, t_config = cfg, t_isInitialized = True \<rparr>
            now ''Invalid text for translation''
            \<lparr> req_text = [], req_sourceLang = ''auto'', req_targetLang = ''zh-CN'',
              req_translator = ''openai'', req_maxTokens = mt \<rparr>)"
  by (simp add: translate_def validateRequest_def Let_def)

text \<open>
  Claim C2. A batch task of \<open>k\<close> texts whose translator is configured and created, and
  which is never cancelled, runs to its end: after the \<open>k + 1\<close> continuations of
  \<open>executeBatchTranslation\<close> its promise is resolved, the task is \<open>completed\<close> whatever the
  number of failed chunks, and \<open>results\<close> has length \<open>k\<close>. For every index \<open>i\<close>,
  \<open>results[i]\<close> has the original text \<open>texts[i]\<close>, its status is \<open>error\<close> when the
  \<open>translate\<close> call for \<open>texts[i]\<close> threw and \<open>success\<close> otherwise, and it is exactly the
  response that call returned, or, when the call threw, the placeholder with the original
  text \<open>texts[i]\<close>, an empty translation, the task's languages and translator, status
  \<open>error\<close>, the message of what was thrown and the time of the catch. \<open>errors\<close> holds, in
  the order of the chunks, exactly the messages of the calls that threw, so it has one entry
  for each failed chunk; the list of texts of the task is unchanged.
\<close>

theorem batch_results_aligned:
  assumes "startBatchTranslation env s texts src tgt ty = (taskId, s0, bx0)"
    and "map_of (translators (settings s)) ty = Some translatorConfig"
    and "fst (createTranslatorAsync env (translatorFactory s) ty translatorConfig []) = Inr inst"
    and "length envs = Suc (length texts)"
  shows "\<exists>task. map_of (batchTasks (fst (runBatch (s0, bx0) (map Resume envs)))) taskId = Some task
           \<and> bx_pc (snd (runBatch (s0, bx0) (map Resume envs))) = Settled None
           \<and> task_status task = completed
           \<and> length (task_results task) = length texts
           \<and> (\<forall>i<length texts.
                  originalText (task_results task ! i) = texts ! i
                  \<and> status (task_results task ! i)
                      = (if isl (fst (translate inst (env_now (envs ! i))
                                        \<lparr> req_text = texts ! i, req_sourceLang = src,
                                          req_targetLang = tgt, req_translator = ty,
                                          req_maxTokens = None \<rparr>))
                         then error else success)
                  \<and> task_results task ! i
                      = (case fst (translate inst (env_now (envs ! i))
                                     \<lparr> req_text = texts ! i, req_sourceLang = src,
                                       req_targetLang = tgt, req_translator = ty,
                                       req_maxTokens = None \<rparr>) of
                           Inr response \<Rightarrow> response
                         | Inl e \<Rightarrow>
                             \<lparr> originalText = texts ! i, translatedText = [],
                               sourceLang = src, targetLang = tgt, translator = ty,
                               status = error, err = Some (message_of e),
                               timestamp = env_now (envs ! Suc i) \<rparr>))
           \<and> task_errors task
               = concat (map (\<lambda>i. case fst (translate inst (env_now (envs ! i))
                                              \<lparr> req_text = texts ! i, req_sourceLang = src,
                                                req_targetLang = tgt, req_translator = ty,
                                                req_maxTokens = None \<rparr>) of
                                      Inr response \<Rightarrow> []
                                    | Inl e \<Rightarrow> [message_of e])
                           [0..<length texts])
           \<and> length (task_errors task)
               = length (filter (\<lambda>i. isl (fst (translate inst (env_now (envs ! i))
                                                  \<lparr> req_text = texts ! i, req_sourceLang = src,
                                                    req_targetLang = tgt, req_translator = ty,
                                                    req_maxTokens = None \<rparr>)))
                           [0..<length texts])
           \<and> task_texts task = texts"
proof -
  have "batchDone inst envs texts src tgt ty taskId (runBatch (s0, bx0) (map Resume envs))"
    using start_state(1)[OF assms(1,2,3)] start_state(2)[OF assms(1,2,3)]
      start_state(3)[OF assms(1,2,3)] assms(4)
    by (rule run_done)
  then obtain task where t:
      "bx_pc (snd (runBatch (s0, bx0) (map Resume envs))) = Settled None"
      "map_of (batchTasks (fst (runBatch (s0, bx0) (map Resume envs)))) taskId = Some task"
      "batchRecorded inst envs texts src tgt ty completed (length texts) task"
    by (auto simp: batchDone_def)
  have res: "task_results task = map (chunkResult inst envs texts src tgt ty) [0..<length texts]"
    and errs: "task_errors task
                 = concat (map (chunkErrors inst envs texts src tgt ty) [0..<length texts])"
    and fin: "task_status task = completed" and same_texts: "task_texts task = texts"
    using t(3) by (simp_all add: batchRecorded_def)
  have out: "\<And>i. chunkOutcome inst envs texts src tgt ty i
               = fst (translate inst (env_now (envs ! i))
                        \<lparr> req_text = texts ! i, req_sourceLang = src, req_targetLang = tgt,
                          req_translator = ty, req_maxTokens = None \<rparr>)"
    by (simp add: chunkOutcome_def chunkRequest_def)
  have each: "\<forall>i<length texts.
          originalText (task_results task ! i) = texts ! i
          \<and> status (task_results task ! i)
              = (if isl (chunkOutcome inst envs texts src tgt ty i) then error else success)
          \<and> task_results task ! i = chunkResult inst envs texts src tgt ty i"
    using chunkResult_props by (simp add: res)
  have errs': "task_errors task
               = concat (map (\<lambda>i. case chunkOutcome inst envs texts src tgt ty i of
                                      Inr response \<Rightarrow> []
                                    | Inl e \<Rightarrow> [message_of e])
                           [0..<length texts])"
    unfolding errs by (simp add: chunkErrors_def[abs_def])
  have cnt: "length (task_errors task)
               = length (filter (\<lambda>i. isl (chunkOutcome inst envs texts src tgt ty i))
                           [0..<length texts])"
    by (simp only: errs chunkErrors_count)
  have len: "length (task_results task) = length texts" by (simp add: res)
  show ?thesis
    apply (rule exI[of _ task])
    apply (intro conjI)
    subgoal by (rule t(2))
    subgoal by (rule t(1))
    subgoal by (rule fin)
    subgoal by (rule len)
    subgoal using each by (simp only: chunkResult_def out)
    subgoal using errs' by (simp only: out)
    subgoal using cnt by (simp only: out)
    subgoal by (rule same_texts)
    done
qed

theorem batch_results_aligned_witness:
  "map_of (translators (settings stubService)) ''openai'' = Some openaiConfig
   \<and> fst (createTranslatorAsync env0 (translatorFactory stubService) ''openai'' openaiConfig [])
       = Inr \<lparr> t_adapter = stubAdapter, t_config = openaiConfig, t_isInitialized = True \<rparr>
   \<and> length batchEnvs = Suc (length threeTexts)
   \<and> bx_pc (snd (runBatch (snd threeChunks) (map Resume batchEnvs))) = Settled None
   \<and> map_option
         (\<lambda>task. (task_status task, task_results task, task_errors task))
         (map_of (batchTasks (fst (runBatch (snd threeChunks) (map Resume batchEnvs))))
            (fst threeChunks))
       = Some (completed,
               [\<lparr> originalText = js ''Hello'', translatedText = [0x4F60, 0x597D],
                   sourceLang = ''auto'', targetLang = ''zh-CN'', translator = ''openai'',
                   status = success, err = None, timestamp = 1700000005000 \<rparr>,
                \<lparr> originalText = [], translatedText = [],
                   sourceLang = ''auto'', targetLang = ''zh-CN'', translator = ''openai'',
                   status = error, err = Some ''Unknown error'', timestamp = 1700000009000 \<rparr>,
                \<lparr> originalText = js ''World'', translatedText = [0x4F60, 0x597D],
                   sourceLang = ''auto'', targetLang = ''zh-CN'', translator = ''openai'',
                   status = success, err = None, timestamp = 1700000009000 \<rparr>],
               [''Unknown error''])"
proof -
  let ?inst = "\<lparr> t_adapter = stubAdapter, t_config = openaiConfig, t_isInitialized = True \<rparr>"
  let ?out = "\<lambda>i. fst (translate ?inst (env_now (batchEnvs ! i))
                         \<lparr> req_text = threeTexts ! i, req_sourceLang = ''auto'',
                           req_targetLang = ''zh-CN'', req_translator = ''openai'',
                           req_maxTokens = None \<rparr>)"
  obtain taskId s0 bx0 where start:
    "startBatchTranslation env0 stubService threeTexts ''auto'' ''zh-CN'' ''openai''
       = (taskId, s0, bx0)"
    by (cases "startBatchTranslation env0 stubService threeTexts ''auto'' ''zh-CN'' ''openai''")
  have cfg: "map_of (translators (settings stubService)) ''openai'' = Some openaiConfig"
    by (simp add: stubService_def DEFAULT_CONFIG_def openaiConfig_def)
  have created: "fst (createTranslatorAsync env0 (translatorFactory stubService) ''openai''
                        openaiConfig []) = Inr ?inst"
    by (simp add: stubService_def stub_create)
  have len: "length batchEnvs = Suc (length threeTexts)"
    by (simp add: batchEnvs_def threeTexts_def)
  have n3: "length threeTexts = 3" by (simp add: threeTexts_def)
  have o0: "?out 0 = Inr \<lparr> originalText = js ''Hello'', translatedText = [0x4F60, 0x597D],
                   sourceLang = ''auto'', targetLang = ''zh-CN'', translator = ''openai'',
                   status = success, err = None, timestamp = 1700000005000 \<rparr>"
    by (simp add: threeTexts_def batchEnvs_def stub_translate_hello env1_def)
  have o1: "?out 1 = Inl (createTranslationError ?inst 1700000009000
              ''Invalid text for translation''
              \<lparr> req_text = [], req_sourceLang = ''auto'', req_targetLang = ''zh-CN'',
                req_translator = ''openai'', req_maxTokens = None \<rparr>)"
    by (simp add: threeTexts_def batchEnvs_def stub_translate_empty env2_def)
  have o2: "?out 2 = Inr \<lparr> originalText = js ''World'', translatedText = [0x4F60, 0x597D],
                   sourceLang = ''auto'', targetLang = ''zh-CN'', translator = ''openai'',
                   status = success, err = None, timestamp = 1700000009000 \<rparr>"
    by (simp add: threeTexts_def batchEnvs_def stub_translate_world env2_def)
  obtain task where t:
      "map_of (batchTasks (fst (runBatch (s0, bx0) (map Resume batchEnvs)))) taskId = Some task"
      "bx_pc (snd (runBatch (s0, bx0) (map Resume batchEnvs))) = Settled None"
      "task_status task = completed"
      "length (task_results task) = length threeTexts"
      "\<forall>i<length threeTexts.
          task_results task ! i
            = (case ?out i of
                 Inr response \<Rightarrow> response
               | Inl e \<Rightarrow>
                   \<lparr> originalText = threeTexts ! i, translatedText = [],
                     sourceLang = ''auto'', targetLang = ''zh-CN'', translator = ''openai'',
                     status = error, err = Some (message_of e),
                     timestamp = env_now (batchEnvs ! Suc i) \<rparr>)"
      "task_errors task
         = concat (map (\<lambda>i. case ?out i of Inr response \<Rightarrow> [] | Inl e \<Rightarrow> [message_of e])
                     [0..<length threeTexts])"
    using batch_results_aligned[OF start cfg created len] by blast
  have upt3: "[0..<3] = [0, 1, 2::nat]"
    by (simp add: upt_rec)
  have r0: "task_results task ! 0
      = \<lparr> originalText = js ''Hello'', translatedText = [0x4F60, 0x597D],
          sourceLang = ''auto'', targetLang = ''zh-CN'', translator = ''openai'',
          status = success, err = None, timestamp = 1700000005000 \<rparr>"
    using t(5)[rule_format, of 0] n3 unfolding o0 by simp
  have r1: "task_results task ! 1
      = \<lparr> originalText = [], translatedText = [],
          sourceLang = ''auto'', targetLang = ''zh-CN'', translator = ''openai'',
          status = error, err = Some ''Unknown error'', timestamp = 1700000009000 \<rparr>"
    using t(5)[rule_format, of 1] n3 unfolding o1
    by (simp add: createTranslationError_def threeTexts_def batchEnvs_def env2_def)
  have r2: "task_results task ! 2
      = \<lparr> originalText = js ''World'', translatedText = [0x4F60, 0x597D],
          sourceLang = ''auto'', targetLang = ''zh-CN'', translator = ''openai'',
          status = success, err = None, timestamp = 1700000009000 \<rparr>"
    using t(5)[rule_format, of 2] n3 unfolding o2 by simp
  obtain a b c where abc: "task_results task = [a, b, c]"
    using t(4) n3 by (auto simp: numeral_3_eq_3 length_Suc_conv)
  have results: "task_results task
      = [\<lparr> originalText = js ''Hello'', translatedText = [0x4F60, 0x597D],
           sourceLang = ''auto'', targetLang = ''zh-CN'', translator = ''openai'',
           status = success, err = None, timestamp = 1700000005000 \<rparr>,
         \<lparr> originalText = [], translatedText = [],
           sourceLang = ''auto'', targetLang = ''zh-CN'', translator = ''openai'',
           status = error, err = Some ''Unknown error'', timestamp = 1700000009000 \<rparr>,
         \<lparr> originalText = js ''World'', translatedText = [0x4F60, 0x597D],
           sourceLang = ''auto'', targetLang = ''zh-CN'', translator = ''openai'',
           status = success, err = None, timestamp = 1700000009000 \<rparr>]"
    using r0 r1 r2 by (simp add: abc)
  have errs: "task_errors task = [''Unknown error'']"
    using t(6) unfolding n3 upt3 list.map o0 o1 o2
    by (simp add: createTranslationError_def)
  show ?thesis
    using cfg created len t(1,2,3) results errs start
    by (simp add: threeChunks_def)
qed

end
